theory Spec2Isabelle
  imports Complex_Main
begin

section \<open>Errors and tensors\<close>

text \<open>
  The two source files, \<^verbatim>\<open>pl_dalle/models/vqgan.py\<close> and \<^verbatim>\<open>pl_dalle/models/vqvae.py\<close>,
  are Python. Every exception that the modelled code can raise is a value of \<open>error\<close>, and a
  call that may raise returns \<open>error + 'a\<close> with \<open>Inl\<close> for the exception. Floating-point
  numbers are idealised as \<open>real\<close>.
\<close>

datatype error =
    AttributeError string
  | UnboundLocalError string
  | NotImplementedError
  | TypeError
  | ValueError
  | IndexError
  | ZeroDivisionError
  | OverflowError
  | RuntimeError
  | EinopsError
  | ExternalError string

fun bind_result :: "error + 'a \<Rightarrow> ('a \<Rightarrow> error + 'b) \<Rightarrow> error + 'b" where
  "bind_result (Inl e) f = Inl e"
| "bind_result (Inr x) f = f x"

text \<open>A dense tensor: its shape and its elements in row-major order.\<close>

record 'a tensor =
  shape :: "nat list"
  data :: "'a list"

text \<open>
  A tensor argument whose element type the callee checks at run time: token indices are
  integer tensors, images and latent grids are floating-point tensors.
\<close>

datatype tval = LongTensor "int tensor" | FloatTensor "real tensor"

section \<open>The model classes of vqgan.py\<close>

text \<open>
  The attributes of a \<^verbatim>\<open>VQGAN\<close> instance that its methods read. The encoder, the decoder,
  the two 1x1 convolutions, the quantizer and the composite loss are external modules: each
  is a function that may raise. The quantizer module carries its own state (its embedding
  table and, for \<^verbatim>\<open>GumbelQuantizer\<close>, its \<^verbatim>\<open>temperature\<close> attribute), which its forward
  function receives. \<^verbatim>\<open>post_quant_conv\<close> is handed whatever \<^verbatim>\<open>decode\<close> is given, of
  either element type. \<open>logged\<close> collects the calls of \<^verbatim>\<open>self.log\<close>; \<open>forward_passes\<close>
  counts the executions of \<^verbatim>\<open>VQGAN.forward\<close> (an observation of the model, not an
  attribute of the source).
\<close>

record quantizer =
  embedding :: "real tensor"

record gumbel_quantizer = quantizer +
  quantize_temperature :: real

type_synonym quantize_result = "real tensor \<times> real \<times> (real \<times> real tensor \<times> int tensor)"

record 'q vqgan =
  encoder :: "real tensor \<Rightarrow> error + real tensor"
  decoder :: "real tensor \<Rightarrow> error + real tensor"
  loss :: "real \<Rightarrow> real tensor \<Rightarrow> real tensor \<Rightarrow> int \<Rightarrow> nat \<Rightarrow> real tensor \<Rightarrow> string \<Rightarrow> error + real"
  quant_conv :: "real tensor \<Rightarrow> error + real tensor"
  quantize :: "'q quantizer_scheme"
  quantize_forward :: "'q quantizer_scheme \<Rightarrow> real tensor \<Rightarrow> error + quantize_result"
  post_quant_conv :: "tval \<Rightarrow> error + real tensor"
  conv_out_weight :: "real tensor"
  log_images :: bool
  global_step :: nat
  logged :: "(string \<times> real) list"
  forward_passes :: nat

text \<open>\<^verbatim>\<open>GumbelVQGAN.__init__\<close> adds three attributes to those of its parent.\<close>

record gumbel_vqgan = "\<lparr>quantize_temperature :: real\<rparr> vqgan" +
  temperature :: real
  anneal_rate :: real
  temp_min :: real

text \<open>What a training or validation step returns: the loss, or a dictionary with it.\<close>

datatype step_output =
    Loss real
  | LossWithImages real "real tensor" "real tensor"

fun loss_of :: "step_output \<Rightarrow> real" where
  "loss_of (Loss l) = l"
| "loss_of (LossWithImages l x xrec) = l"

definition log_value :: "('q, 'z) vqgan_scheme \<Rightarrow> string \<Rightarrow> real \<Rightarrow> ('q, 'z) vqgan_scheme" where
  "log_value self name v = self\<lparr>logged := logged self @ [(name, v)]\<rparr>"

definition get_last_layer :: "('q, 'z) vqgan_scheme \<Rightarrow> real tensor" where
  "get_last_layer self = conv_out_weight self"

subsection \<open>Library operations used by the methods\<close>

text \<open>
  \<^verbatim>\<open>int(math.sqrt(n))\<close>: the square root of \<open>n\<close>, truncated. (On IEEE doubles the
  result is this value for every sequence length below \<open>2^52\<close>.)
\<close>

definition int_sqrt :: "nat \<Rightarrow> nat" where
  "int_sqrt n = nat \<lfloor>sqrt (real n)\<rfloor>"

text \<open>
  \<^verbatim>\<open>math.exp(x)\<close>: the exponential, or OverflowError when the result is too large for a
  double, taken here as a result of \<open>2^1024\<close> or more.
\<close>

definition math_exp :: "real \<Rightarrow> error + real" where
  "math_exp x = (if 2 ^ 1024 \<le> exp x then Inl OverflowError else Inr (exp x))"

text \<open>
  \<^verbatim>\<open>nn.Embedding\<close> applied to an index tensor: each index selects a row of the weight
  table, and the rows are appended as a new last axis. An index outside the table raises
  IndexError; a floating-point argument is rejected.
\<close>

definition embedding_forward :: "real tensor \<Rightarrow> tval \<Rightarrow> error + real tensor" where
  "embedding_forward weight input =
     (case input of
        FloatTensor t \<Rightarrow> Inl RuntimeError
      | LongTensor idx \<Rightarrow>
          (case shape weight of
             [num, d] \<Rightarrow>
               if list_all (\<lambda>i. 0 \<le> i \<and> i < int num) (data idx)
               then Inr \<lparr>shape = shape idx @ [d],
                         data = concat (map (\<lambda>i. take d (drop (nat i * d) (data weight))) (data idx))\<rparr>
               else Inl IndexError
           | _ \<Rightarrow> Inl RuntimeError))"

text \<open>
  \<^verbatim>\<open>rearrange(t, 'b (h w) d -> b d h w', h = h, w = w)\<close> of einops: the middle axis must
  have length \<open>h * w\<close>, otherwise einops raises; element \<open>(b, c, i, j)\<close> of the result is
  element \<open>(b, i * w + j, c)\<close> of the argument.
\<close>

definition rearrange_b_hw_d :: "real tensor \<Rightarrow> nat \<Rightarrow> nat \<Rightarrow> error + real tensor" where
  "rearrange_b_hw_d t h w =
     (case shape t of
        [b, n, d] \<Rightarrow>
          if n \<noteq> h * w then Inl EinopsError
          else Inr \<lparr>shape = [b, d, h, w],
                    data = concat (map (\<lambda>bi. concat (map (\<lambda>c. concat (map (\<lambda>i.
                             map (\<lambda>j. data t ! ((bi * n + (i * w + j)) * d + c)) [0..<w])
                             [0..<h])) [0..<d])) [0..<b])\<rparr>
      | _ \<Rightarrow> Inl EinopsError)"

text \<open>\<^verbatim>\<open>Tensor.view\<close>: the new shape must hold exactly the elements of the tensor.\<close>

definition view :: "'a tensor \<Rightarrow> nat list \<Rightarrow> error + 'a tensor" where
  "view t shp = (if prod_list shp = length (data t) then Inr (t\<lparr>shape := shp\<rparr>) else Inl RuntimeError)"

subsection \<open>VQGAN\<close>

definition encode :: "('q, 'z) vqgan_scheme \<Rightarrow> real tensor \<Rightarrow> error + quantize_result" where
  "encode self x =
     bind_result (encoder self x) (\<lambda>h.
     bind_result (quant_conv self h) (\<lambda>h.
     bind_result (quantize_forward self (quantize self) h) (\<lambda>(quant, emb_loss, info).
     Inr (quant, emb_loss, info))))"

text \<open>
  The first branch of \<^verbatim>\<open>VQGAN.decode\<close> (lines 60 to 64): the grid \<open>z\<close> built from a token
  sequence.
\<close>

definition feed_seq_grid :: "('q, 'z) vqgan_scheme \<Rightarrow> tval \<Rightarrow> error + real tensor" where
  "feed_seq_grid self img_seq =
     bind_result (embedding_forward (embedding (quantize self)) img_seq) (\<lambda>image_embeds.
     (case shape image_embeds of
        [b, n, d] \<Rightarrow> (let h = int_sqrt n; w = h in rearrange_b_hw_d image_embeds h w)
      | _ \<Rightarrow> Inl ValueError))"

definition decode :: "('q, 'z) vqgan_scheme \<Rightarrow> tval \<Rightarrow> bool \<Rightarrow> error + real tensor" where
  "decode self input feed_seq =
     bind_result (if feed_seq
                  then bind_result (feed_seq_grid self input) (\<lambda>z. Inr (FloatTensor z))
                  else Inr input) (\<lambda>z.
     bind_result (post_quant_conv self z) (\<lambda>quant.
     decoder self quant))"

text \<open>
  \<^verbatim>\<open>VQGAN.get_codebook_indices\<close>. The decorator \<^verbatim>\<open>torch.no_grad\<close> switches gradient
  recording off for the call; it does not change a computed value and is not modelled.
\<close>

definition get_codebook_indices :: "('q, 'z) vqgan_scheme \<Rightarrow> real tensor \<Rightarrow> error + int tensor" where
  "get_codebook_indices self img =
     (case shape img of
        [] \<Rightarrow> Inl IndexError
      | b # _ \<Rightarrow>
          (let img = img\<lparr>data := map (\<lambda>v. 2 * v - 1) (data img)\<rparr> in
           bind_result (encode self img) (\<lambda>(_, _, (_, _, indices)).
           (case shape indices of
              [] \<Rightarrow> Inl IndexError
            | m # _ \<Rightarrow>
                if b = 0 then Inl ZeroDivisionError
                else (let n = m div b in view indices [b, n])))))"

definition forward ::
  "('q, 'z) vqgan_scheme \<Rightarrow> real tensor \<Rightarrow> error + ((real tensor \<times> real) \<times> ('q, 'z) vqgan_scheme)" where
  "forward self input =
     bind_result (encode self input) (\<lambda>(quant, diff, _).
     bind_result (decode self (FloatTensor quant) False) (\<lambda>dec.
     Inr ((dec, diff), self\<lparr>forward_passes := forward_passes self + 1\<rparr>)))"

text \<open>
  Lines 88 to 109 of \<^verbatim>\<open>VQGAN.training_step\<close>, which lines 209 to 228 of
  \<^verbatim>\<open>GumbelVQGAN.training_step\<close> repeat word for word. The local variable \<^verbatim>\<open>loss\<close> is
  bound only inside the two \<^verbatim>\<open>if\<close> blocks, so it is an option here and reading it
  unbound raises.
\<close>

definition training_body ::
  "('q, 'z) vqgan_scheme \<Rightarrow> real tensor \<Rightarrow> int \<Rightarrow> error + (step_output \<times> ('q, 'z) vqgan_scheme)" where
  "training_body self x optimizer_idx =
     bind_result (forward self x) (\<lambda>((xrec, qloss), self).
     bind_result
       (if optimizer_idx = 0 then
          bind_result (loss self qloss x xrec optimizer_idx (global_step self) (get_last_layer self) ''train'')
            (\<lambda>aeloss.
               let lossv = aeloss + qloss;
                   self = log_value self ''train/rec_loss'' aeloss;
                   self = log_value self ''train/embed_loss'' qloss;
                   self = log_value self ''train/total_loss'' lossv
               in Inr (Some lossv, self))
        else Inr (None, self)) (\<lambda>(lossv, self).
     bind_result
       (if optimizer_idx = 1 then
          bind_result (loss self qloss x xrec optimizer_idx (global_step self) (get_last_layer self) ''train'')
            (\<lambda>discloss.
               let self = log_value self ''train/disc_loss'' discloss
               in Inr (Some discloss, self))
        else Inr (lossv, self)) (\<lambda>(lossv, self).
     (case lossv of
        None \<Rightarrow> Inl (UnboundLocalError ''loss'')
      | Some l \<Rightarrow>
          if log_images self then Inr (LossWithImages l x xrec, self)
          else Inr (Loss l, self)))))"

definition training_step ::
  "('q, 'z) vqgan_scheme \<Rightarrow> real tensor list \<Rightarrow> int \<Rightarrow> int \<Rightarrow> error + (step_output \<times> ('q, 'z) vqgan_scheme)" where
  "training_step self batch batch_idx optimizer_idx =
     (case batch of
        [] \<Rightarrow> Inl IndexError
      | x # _ \<Rightarrow> training_body self x optimizer_idx)"

text \<open>
  Lines 115 to 129 of \<^verbatim>\<open>VQGAN.validation_step\<close>, repeated by lines 234 to 248 of
  \<^verbatim>\<open>GumbelVQGAN.validation_step\<close>.
\<close>

definition validation_body ::
  "('q, 'z) vqgan_scheme \<Rightarrow> real tensor \<Rightarrow> error + (step_output \<times> ('q, 'z) vqgan_scheme)" where
  "validation_body self x =
     bind_result (forward self x) (\<lambda>((xrec, qloss), self).
     bind_result (loss self qloss x xrec 0 (global_step self) (get_last_layer self) ''val'') (\<lambda>aeloss.
     bind_result (loss self qloss x xrec 1 (global_step self) (get_last_layer self) ''val'') (\<lambda>discloss.
       let lossv = aeloss + qloss;
           self = log_value self ''val/rec_loss'' aeloss;
           self = log_value self ''val/disc_loss'' discloss;
           self = log_value self ''val/embed_loss'' qloss;
           self = log_value self ''val/total_loss'' lossv
       in if log_images self then Inr (LossWithImages lossv x xrec, self)
          else Inr (Loss lossv, self))))"

definition validation_step ::
  "('q, 'z) vqgan_scheme \<Rightarrow> real tensor list \<Rightarrow> int \<Rightarrow> error + (step_output \<times> ('q, 'z) vqgan_scheme)" where
  "validation_step self batch batch_idx =
     (case batch of
        [] \<Rightarrow> Inl IndexError
      | x # _ \<Rightarrow> validation_body self x)"

text \<open>
  The loop that ends \<^verbatim>\<open>VQGAN.__init__\<close> (lines 45 to 49), over the pairs that
  \<^verbatim>\<open>self.named_parameters()\<close> yields. The two initialisers of \<^verbatim>\<open>torch.nn.init\<close> work in
  place and may raise (both reject a tensor of fewer than two dimensions); an exception ends
  the loop.
\<close>

fun init_parameters ::
  "('p \<Rightarrow> error + 'p) \<Rightarrow> ('p \<Rightarrow> error + 'p) \<Rightarrow> (string \<times> 'p) list \<Rightarrow> error + (string \<times> 'p) list" where
  "init_parameters orthogonal kaiming_normal [] = Inr []"
| "init_parameters orthogonal kaiming_normal ((name, p) # rest) =
     bind_result
       (if List.member [''weight''] name then orthogonal p
        else if List.member [''bias''] name then kaiming_normal p
        else Inr p) (\<lambda>p.
     bind_result (init_parameters orthogonal kaiming_normal rest) (\<lambda>rest.
     Inr ((name, p) # rest)))"

subsection \<open>GumbelVQGAN\<close>

definition gumbel_training_step ::
  "gumbel_vqgan \<Rightarrow> real tensor list \<Rightarrow> int \<Rightarrow> int \<Rightarrow> error + (step_output \<times> gumbel_vqgan)" where
  "gumbel_training_step self batch batch_idx optimizer_idx =
     (case batch of
        [] \<Rightarrow> Inl IndexError
      | x # _ \<Rightarrow>
          bind_result (math_exp (- anneal_rate self * real (global_step self))) (\<lambda>e.
          (let self = self\<lparr>temperature := max (temperature self * e) (temp_min self)\<rparr>;
               self = self\<lparr>quantize := (quantize self)\<lparr>quantize_temperature := temperature self\<rparr>\<rparr>
           in training_body self x optimizer_idx)))"

definition gumbel_validation_step ::
  "gumbel_vqgan \<Rightarrow> real tensor list \<Rightarrow> int \<Rightarrow> error + (step_output \<times> gumbel_vqgan)" where
  "gumbel_validation_step self batch batch_idx =
     (case batch of
        [] \<Rightarrow> Inl IndexError
      | x # _ \<Rightarrow>
          (let self = self\<lparr>quantize := (quantize self)\<lparr>quantize_temperature := 1.0\<rparr>\<rparr>
           in validation_body self x))"

text \<open>
  Lines 194 to 201 of \<^verbatim>\<open>GumbelVQGAN.__init__\<close>, applied to the instance that the parent
  constructor has built: the three annealing attributes are stored, and \<^verbatim>\<open>quant_conv\<close> and
  \<^verbatim>\<open>quantize\<close> are replaced. The new \<^verbatim>\<open>GumbelQuantizer\<close> is given \<^verbatim>\<open>temp_init\<close>
  as its temperature.
\<close>

definition GumbelVQGAN_init ::
  "'q vqgan \<Rightarrow> real \<Rightarrow> real \<Rightarrow> real \<Rightarrow> (real tensor \<Rightarrow> error + real tensor) \<Rightarrow> real tensor \<Rightarrow>
   (gumbel_quantizer \<Rightarrow> real tensor \<Rightarrow> error + quantize_result) \<Rightarrow> gumbel_vqgan" where
  "GumbelVQGAN_init parent starting_temp rate tmin gumbel_conv codebook gumbel_forward =
     \<lparr>encoder = encoder parent, decoder = decoder parent, loss = loss parent,
      quant_conv = gumbel_conv,
      quantize = \<lparr>embedding = codebook, quantize_temperature = starting_temp\<rparr>,
      quantize_forward = gumbel_forward,
      post_quant_conv = post_quant_conv parent,
      conv_out_weight = conv_out_weight parent,
      log_images = log_images parent, global_step = global_step parent,
      logged = logged parent, forward_passes = forward_passes parent,
      temperature = starting_temp, anneal_rate = rate, temp_min = tmin\<rparr>"

text \<open>
  The temperature that line 207 of \<^verbatim>\<open>GumbelVQGAN.training_step\<close> computes when
  \<^verbatim>\<open>math.exp\<close> returns.
\<close>

definition annealed :: "gumbel_vqgan \<Rightarrow> real" where
  "annealed self =
     max (temperature self * exp (- anneal_rate self * real (global_step self))) (temp_min self)"

subsection \<open>The training loop's two phases\<close>

text \<open>
  \<^verbatim>\<open>configure_optimizers\<close> returns two optimizers, so the trainer of PyTorch Lightning calls
  \<^verbatim>\<open>training_step\<close> once for each optimizer index on every batch, index 0 first.
\<close>

definition train_batch ::
  "('q, 'z) vqgan_scheme \<Rightarrow> real tensor list \<Rightarrow> int \<Rightarrow>
   error + ((step_output \<times> step_output) \<times> ('q, 'z) vqgan_scheme)" where
  "train_batch self batch batch_idx =
     bind_result (training_step self batch batch_idx 0) (\<lambda>(out0, self).
     bind_result (training_step self batch batch_idx 1) (\<lambda>(out1, self).
     Inr ((out0, out1), self)))"

definition gumbel_train_batch ::
  "gumbel_vqgan \<Rightarrow> real tensor list \<Rightarrow> int \<Rightarrow> error + ((step_output \<times> step_output) \<times> gumbel_vqgan)" where
  "gumbel_train_batch self batch batch_idx =
     bind_result (gumbel_training_step self batch batch_idx 0) (\<lambda>(out0, self).
     bind_result (gumbel_training_step self batch batch_idx 1) (\<lambda>(out1, self).
     Inr ((out0, out1), self)))"

text \<open>Observations of a step's final state, \<open>None\<close> when the step raised.\<close>

definition forward_passes_after :: "error + ('a \<times> ('q, 'z) vqgan_scheme) \<Rightarrow> nat option" where
  "forward_passes_after r = (case r of Inl e \<Rightarrow> None | Inr (out, self) \<Rightarrow> Some (forward_passes self))"

definition quantize_temperature_after :: "error + ('a \<times> gumbel_vqgan) \<Rightarrow> real option" where
  "quantize_temperature_after r =
     (case r of Inl e \<Rightarrow> None | Inr (out, self) \<Rightarrow> Some (quantize_temperature (quantize self)))"

subsection \<open>A small concrete instance\<close>

text \<open>
  Networks that return their argument (the inverse projection rejects an integer tensor), a
  quantizer whose loss term is its temperature (or \<open>1 / 4\<close> for the hard quantizer), and a
  composite loss of 2 in autoencoder mode and 3 in discriminator mode.
\<close>

definition demo_image :: "real tensor" where
  "demo_image = \<lparr>shape = [1], data = [3]\<rparr>"

definition demo_vqgan :: "unit vqgan" where
  "demo_vqgan =
     \<lparr>encoder = Inr, decoder = Inr,
      loss = (\<lambda>qloss x xrec optimizer_idx step w split. Inr (if optimizer_idx = 0 then 2 else 3)),
      quant_conv = Inr,
      quantize = \<lparr>embedding = \<lparr>shape = [2, 1], data = [5, 7]\<rparr>\<rparr>,
      quantize_forward = (\<lambda>q h. Inr (h, 1 / 4, (1, h, \<lparr>shape = [4], data = [0, 1, 1, 0]\<rparr>))),
      post_quant_conv = (\<lambda>z. case z of FloatTensor t \<Rightarrow> Inr t | LongTensor t \<Rightarrow> Inl RuntimeError),
      conv_out_weight = \<lparr>shape = [1], data = [1]\<rparr>,
      log_images = False, global_step = 10000, logged = [], forward_passes = 0\<rparr>"

definition demo_gumbel :: gumbel_vqgan where
  "demo_gumbel =
     GumbelVQGAN_init demo_vqgan 1 (1 / 10000) (1 / 10) Inr \<lparr>shape = [2, 1], data = [5, 7]\<rparr>
       (\<lambda>q h. Inr (h, quantize_temperature q, (1, h, \<lparr>shape = [4], data = [0, 1, 1, 0]\<rparr>)))"

text \<open>The same instance late in training, at global step \<open>10^9\<close>.\<close>

definition demo_gumbel_late :: gumbel_vqgan where
  "demo_gumbel_late = demo_gumbel\<lparr>global_step := 1000000000\<rparr>"

text \<open>
  Token sequences for one image, of length 4 and of length 3, and three named parameters
  (natural numbers stand for the tensors).
\<close>

definition demo_tokens :: "int tensor" where
  "demo_tokens = \<lparr>shape = [1, 4], data = [0, 1, 1, 0]\<rparr>"

definition demo_short_tokens :: "int tensor" where
  "demo_short_tokens = \<lparr>shape = [1, 3], data = [0, 1, 1]\<rparr>"

definition demo_parameters :: "(string \<times> nat) list" where
  "demo_parameters = [(''weight'', 1), (''encoder.conv_in.weight'', 7), (''bias'', 5)]"

section \<open>The model classes of vqvae.py\<close>

text \<open>
  The claims about \<^verbatim>\<open>VQVAE\<close> and \<^verbatim>\<open>GumbelVQVAE\<close> are about attributes that an
  instance has or lacks and about the kind of value passed to a library call, so these two
  classes are modelled with Python's dynamic values: an instance is the list of the
  attributes assigned to it (the latest assignment first), and reading an attribute that was
  never assigned and that no class defines raises AttributeError.
\<close>

datatype pyval =
    PyNone
  | PyBool bool
  | PyInt int
  | PyFloat real
  | PyStr string
  | PyTuple "pyval list"
  | PyList "pyval list"
  | PyTensor "real tensor"
  | PyIndices "int tensor"
  | PyObject string "(string \<times> pyval) list"
  | PyMethod string

text \<open>
  \<open>PyObject c kvs\<close> is an object of class \<open>c\<close> with the attributes \<open>kvs\<close> (an argument
  namespace, a hyperparameter dictionary, an external module); \<open>PyMethod m\<close> is the bound
  method \<open>m\<close> of the instance.
\<close>

record py_instance =
  attributes :: "(string \<times> pyval) list"
  log_calls :: "(string \<times> pyval) list"

text \<open>
  What the classes use and do not define: the constructors of the external modules, calling
  a module, calling a named method of a module, the loss functions of
  \<^verbatim>\<open>torch.nn.functional\<close>, and the trainer's step counter behind \<^verbatim>\<open>self.global_step\<close>.
\<close>

record environment =
  construct :: "string \<Rightarrow> pyval list \<Rightarrow> error + pyval"
  call_module :: "pyval \<Rightarrow> pyval list \<Rightarrow> error + pyval"
  call_method :: "pyval \<Rightarrow> string \<Rightarrow> pyval list \<Rightarrow> error + pyval"
  functional :: "string \<Rightarrow> pyval list \<Rightarrow> error + pyval"
  trainer_global_step :: int

text \<open>
  The names that every instance finds in its classes: the methods that vqvae.py defines and
  the members of \<^verbatim>\<open>LightningModule\<close> and \<^verbatim>\<open>nn.Module\<close> that it calls.
\<close>

definition class_methods :: "string list" where
  "class_methods =
     [''norm'', ''encode'', ''decode'', ''decode_code'', ''get_codebook_indices'', ''forward'',
      ''training_step'', ''validation_step'', ''configure_optimizers'', ''get_last_layer'',
      ''log_images'', ''encode_to_prequant'',
      ''parameters'', ''named_parameters'', ''log'', ''save_hyperparameters'', ''to'']"

definition getattr_self :: "environment \<Rightarrow> py_instance \<Rightarrow> string \<Rightarrow> error + pyval" where
  "getattr_self env self name =
     (if name = ''global_step'' then Inr (PyInt (trainer_global_step env))
      else (case map_of (attributes self) name of
              Some v \<Rightarrow> Inr v
            | None \<Rightarrow>
                if List.member class_methods name then Inr (PyMethod name)
                else Inl (AttributeError name)))"

definition setattr_self :: "py_instance \<Rightarrow> string \<Rightarrow> pyval \<Rightarrow> py_instance" where
  "setattr_self self name v = self\<lparr>attributes := (name, v) # attributes self\<rparr>"

fun getattr_val :: "pyval \<Rightarrow> string \<Rightarrow> error + pyval" where
  "getattr_val (PyObject c kvs) name =
     (case map_of kvs name of Some v \<Rightarrow> Inr v | None \<Rightarrow> Inl (AttributeError name))"
| "getattr_val v name = Inl (AttributeError name)"

fun setattr_val :: "pyval \<Rightarrow> string \<Rightarrow> pyval \<Rightarrow> error + pyval" where
  "setattr_val (PyObject c kvs) name v = Inr (PyObject c ((name, v) # kvs))"
| "setattr_val u name v = Inl (AttributeError name)"

text \<open>The attributes \<^verbatim>\<open>args.n1, args.n2, ...\<close> read from left to right.\<close>

fun getattrs :: "pyval \<Rightarrow> string list \<Rightarrow> error + pyval list" where
  "getattrs v [] = Inr []"
| "getattrs v (n # ns) =
     bind_result (getattr_val v n) (\<lambda>x.
     bind_result (getattrs v ns) (\<lambda>xs.
     Inr (x # xs)))"

text \<open>
  \<^verbatim>\<open>self.save_hyperparameters()\<close> records the arguments of the calling constructor in
  \<^verbatim>\<open>self.hparams\<close>, over what an earlier call recorded.
\<close>

definition hparams_after :: "py_instance \<Rightarrow> (string \<times> pyval) list \<Rightarrow> pyval" where
  "hparams_after self init_args =
     (case map_of (attributes self) ''hparams'' of
        Some (PyObject c old) \<Rightarrow> PyObject ''AttributeDict'' (init_args @ old)
      | _ \<Rightarrow> PyObject ''AttributeDict'' init_args)"

definition save_hyperparameters :: "py_instance \<Rightarrow> (string \<times> pyval) list \<Rightarrow> py_instance" where
  "save_hyperparameters self init_args =
     setattr_self self ''hparams'' (hparams_after self init_args)"

definition log_call :: "py_instance \<Rightarrow> string \<Rightarrow> pyval \<Rightarrow> py_instance" where
  "log_call self name v = self\<lparr>log_calls := log_calls self @ [(name, v)]\<rparr>"

text \<open>
  Iterating a value, as unpacking does: a tuple or list gives its elements, a string its
  characters, a tensor its slices along the first axis (a tensor without axes cannot be
  iterated). A \<open>PyObject\<close> stands for an object that defines no iteration.
\<close>

definition slices :: "'a tensor \<Rightarrow> 'a tensor list" where
  "slices t =
     (case shape t of
        [] \<Rightarrow> []
      | n # rest \<Rightarrow>
          map (\<lambda>i. \<lparr>shape = rest,
                     data = take (prod_list rest) (drop (i * prod_list rest) (data t))\<rparr>) [0..<n])"

fun py_iter :: "pyval \<Rightarrow> error + pyval list" where
  "py_iter (PyTuple vs) = Inr vs"
| "py_iter (PyList vs) = Inr vs"
| "py_iter (PyStr s) = Inr (map (\<lambda>c. PyStr [c]) s)"
| "py_iter (PyTensor t) = (if shape t = [] then Inl TypeError else Inr (map PyTensor (slices t)))"
| "py_iter (PyIndices t) = (if shape t = [] then Inl TypeError else Inr (map PyIndices (slices t)))"
| "py_iter v = Inl TypeError"

text \<open>Unpacking into two or three names; a wrong number of elements raises ValueError.\<close>

definition unpack2 :: "pyval \<Rightarrow> error + (pyval \<times> pyval)" where
  "unpack2 v =
     bind_result (py_iter v) (\<lambda>vs.
     (case vs of [a, b] \<Rightarrow> Inr (a, b) | _ \<Rightarrow> Inl ValueError))"

definition unpack3 :: "pyval \<Rightarrow> error + (pyval \<times> pyval \<times> pyval)" where
  "unpack3 v =
     bind_result (py_iter v) (\<lambda>vs.
     (case vs of [a, b, c] \<Rightarrow> Inr (a, b, c) | _ \<Rightarrow> Inl ValueError))"

fun truthy :: "pyval \<Rightarrow> bool" where
  "truthy PyNone = False"
| "truthy (PyBool b) = b"
| "truthy (PyInt i) = (i \<noteq> 0)"
| "truthy (PyFloat r) = (r \<noteq> 0)"
| "truthy (PyStr s) = (s \<noteq> [])"
| "truthy (PyTuple vs) = (vs \<noteq> [])"
| "truthy (PyList vs) = (vs \<noteq> [])"
| "truthy v = True"

text \<open>Numbers in arithmetic: a float, an int or a bool; anything else raises TypeError.\<close>

fun as_number :: "pyval \<Rightarrow> error + real" where
  "as_number (PyFloat r) = Inr r"
| "as_number (PyInt i) = Inr (real_of_int i)"
| "as_number (PyBool b) = Inr (if b then 1 else 0)"
| "as_number v = Inl TypeError"

definition py_add :: "pyval \<Rightarrow> pyval \<Rightarrow> error + pyval" where
  "py_add a b =
     bind_result (as_number a) (\<lambda>x.
     bind_result (as_number b) (\<lambda>y.
     Inr (PyFloat (x + y))))"

text \<open>\<^verbatim>\<open>t * math.exp(-a * g)\<close>, and \<^verbatim>\<open>max(v, m)\<close>, which returns \<open>v\<close> unless \<open>m\<close> is larger.\<close>

definition decayed :: "pyval \<Rightarrow> pyval \<Rightarrow> pyval \<Rightarrow> error + pyval" where
  "decayed t a g =
     bind_result (as_number t) (\<lambda>t.
     bind_result (as_number a) (\<lambda>a.
     bind_result (as_number g) (\<lambda>g.
     bind_result (math_exp (- a * g)) (\<lambda>e.
     Inr (PyFloat (t * e))))))"

definition py_max :: "pyval \<Rightarrow> pyval \<Rightarrow> error + pyval" where
  "py_max v m =
     bind_result (as_number v) (\<lambda>x.
     bind_result (as_number m) (\<lambda>y.
     Inr (if y > x then m else v)))"

text \<open>
  \<^verbatim>\<open>torch.optim.Adam(params, lr, betas)\<close>: the constructor checks the learning rate and the
  two coefficients, then turns \<^verbatim>\<open>params\<close> into a list, which raises TypeError for a value
  that cannot be iterated, and rejects an empty list.
\<close>

definition Adam :: "pyval \<Rightarrow> pyval \<Rightarrow> real \<times> real \<Rightarrow> error + pyval" where
  "Adam params lr betas =
     bind_result (as_number lr) (\<lambda>r.
     if r < 0 then Inl ValueError
     else if \<not> (0 \<le> fst betas \<and> fst betas < 1) then Inl ValueError
     else if \<not> (0 \<le> snd betas \<and> snd betas < 1) then Inl ValueError
     else (case params of
             PyList ps \<Rightarrow>
               if ps = [] then Inl ValueError
               else Inr (PyObject ''Adam'' [(''param_groups'', PyList ps), (''lr'', lr)])
           | PyTuple ps \<Rightarrow>
               if ps = [] then Inl ValueError
               else Inr (PyObject ''Adam'' [(''param_groups'', PyList ps), (''lr'', lr)])
           | _ \<Rightarrow> Inl TypeError))"

text \<open>
  The two patterns of einops that vqvae.py applies to the index tensor,
  \<^verbatim>\<open>'(b n) -> b n'\<close> and \<^verbatim>\<open>'b h w -> b (h w)'\<close>, each with \<^verbatim>\<open>b\<close> given, as
  functions of the shape. The first divides the axis length by \<^verbatim>\<open>b\<close>, and a zero
  \<^verbatim>\<open>b\<close> raises ZeroDivisionError; a shape that does not fit the pattern raises the
  einops error. The elements keep their row-major order, so only the shape changes. A value
  that is not a tensor is unknown to einops, which raises RuntimeError.
\<close>

definition split_first_axis :: "nat list \<Rightarrow> nat \<Rightarrow> error + nat list" where
  "split_first_axis shp b =
     (case shp of
        [m] \<Rightarrow> if b = 0 then Inl ZeroDivisionError
               else if m mod b \<noteq> 0 then Inl EinopsError
               else Inr [b, m div b]
      | _ \<Rightarrow> Inl EinopsError)"

definition merge_last_axes :: "nat list \<Rightarrow> nat \<Rightarrow> error + nat list" where
  "merge_last_axes shp b =
     (case shp of
        [b', h, w] \<Rightarrow> if b' \<noteq> b then Inl EinopsError else Inr [b, h * w]
      | _ \<Rightarrow> Inl EinopsError)"

definition rearrange_bn :: "pyval \<Rightarrow> nat \<Rightarrow> error + pyval" where
  "rearrange_bn v b =
     (case v of
        PyIndices t \<Rightarrow>
          bind_result (split_first_axis (shape t) b) (\<lambda>shp. Inr (PyIndices (t\<lparr>shape := shp\<rparr>)))
      | PyTensor t \<Rightarrow>
          bind_result (split_first_axis (shape t) b) (\<lambda>shp. Inr (PyTensor (t\<lparr>shape := shp\<rparr>)))
      | _ \<Rightarrow> Inl RuntimeError)"

definition rearrange_bhw :: "pyval \<Rightarrow> nat \<Rightarrow> error + pyval" where
  "rearrange_bhw v b =
     (case v of
        PyIndices t \<Rightarrow>
          bind_result (merge_last_axes (shape t) b) (\<lambda>shp. Inr (PyIndices (t\<lparr>shape := shp\<rparr>)))
      | PyTensor t \<Rightarrow>
          bind_result (merge_last_axes (shape t) b) (\<lambda>shp. Inr (PyTensor (t\<lparr>shape := shp\<rparr>)))
      | _ \<Rightarrow> Inl RuntimeError)"

subsection \<open>VQVAE\<close>

text \<open>
  \<^verbatim>\<open>VQVAE.__init__\<close>, on the instance \<open>self\<close> being constructed. The keyword arguments of
  each external constructor are read from \<^verbatim>\<open>args\<close> in the order written and passed on in
  that order. The constructor of \<^verbatim>\<open>LightningModule\<close> assigns none of the attributes that
  the two classes read.
\<close>

definition VQVAE_init ::
  "environment \<Rightarrow> py_instance \<Rightarrow> pyval \<Rightarrow> pyval \<Rightarrow> pyval \<Rightarrow> pyval \<Rightarrow> pyval \<Rightarrow> pyval \<Rightarrow> pyval \<Rightarrow> pyval \<Rightarrow>
   error + py_instance" where
  "VQVAE_init env self args batch_size learning_rate ignore_keys monitor remap same_index_shape normalization =
     (let self = save_hyperparameters self
                   [(''args'', args), (''batch_size'', batch_size), (''learning_rate'', learning_rate),
                    (''ignore_keys'', ignore_keys), (''monitor'', monitor), (''remap'', remap),
                    (''same_index_shape'', same_index_shape), (''normalization'', normalization)];
          self = setattr_self self ''args'' args
      in
      bind_result (getattrs args [''ch'', ''out_ch'', ''ch_mult'', ''num_res_blocks'', ''attn_resolutions'',
                                  ''dropout'', ''in_channels'', ''resolution'', ''z_channels'', ''double_z'']) (\<lambda>vs.
      bind_result (construct env ''Encoder'' vs) (\<lambda>m.
      let self = setattr_self self ''encoder'' m in
      bind_result (getattrs args [''ch'', ''out_ch'', ''ch_mult'', ''num_res_blocks'', ''attn_resolutions'',
                                  ''dropout'', ''in_channels'', ''resolution'', ''z_channels'']) (\<lambda>vs.
      bind_result (construct env ''Decoder'' vs) (\<lambda>m.
      let self = setattr_self self ''decoder'' m;
          self = setattr_self self ''normalization'' normalization
      in
      bind_result (getattr_val args ''smooth_l1_loss'') (\<lambda>v.
      let self = setattr_self self ''smooth_l1_loss'' v in
      bind_result (getattrs args [''n_embed'', ''embed_dim'']) (\<lambda>vs.
      bind_result (construct env ''VectorQuantizer'' (vs @ [PyFloat 0.25, remap, same_index_shape])) (\<lambda>m.
      let self = setattr_self self ''quantize'' m in
      bind_result (getattrs args [''z_channels'', ''embed_dim'']) (\<lambda>vs.
      bind_result (construct env ''Conv2d'' (vs @ [PyInt 1])) (\<lambda>m.
      let self = setattr_self self ''quant_conv'' m in
      bind_result (getattrs args [''embed_dim'', ''z_channels'']) (\<lambda>vs.
      bind_result (construct env ''Conv2d'' (vs @ [PyInt 1])) (\<lambda>m.
      let self = setattr_self self ''post_quant_conv'' m in
      Inr (if monitor \<noteq> PyNone then setattr_self self ''monitor'' monitor else self)))))))))))))"

text \<open>The expression \<^verbatim>\<open>VQVAE(args, batch_size, learning_rate)\<close>: a new instance, initialised.\<close>

definition new_instance :: py_instance where
  "new_instance = \<lparr>attributes = [], log_calls = []\<rparr>"

definition default_normalization :: pyval where
  "default_normalization =
     PyTuple [PyTuple [PyFloat 0.5, PyFloat 0.5, PyFloat 0.5],
              PyTuple [PyFloat 0.5, PyFloat 0.5, PyFloat 0.5]]"

definition VQVAE_new :: "environment \<Rightarrow> pyval \<Rightarrow> pyval \<Rightarrow> pyval \<Rightarrow> error + py_instance" where
  "VQVAE_new env args batch_size learning_rate =
     VQVAE_init env new_instance args batch_size learning_rate (PyList []) PyNone PyNone (PyBool False)
       default_normalization"

definition VQVAE_encode :: "environment \<Rightarrow> py_instance \<Rightarrow> pyval \<Rightarrow> error + (pyval \<times> pyval \<times> pyval)" where
  "VQVAE_encode env self x =
     bind_result (getattr_self env self ''encoder'') (\<lambda>m.
     bind_result (call_module env m [x]) (\<lambda>h.
     bind_result (getattr_self env self ''quant_conv'') (\<lambda>m.
     bind_result (call_module env m [h]) (\<lambda>h.
     bind_result (getattr_self env self ''quantize'') (\<lambda>m.
     bind_result (call_module env m [h]) (\<lambda>r.
     bind_result (unpack3 r) (\<lambda>(quant, emb_loss, info).
     Inr (quant, emb_loss, info))))))))"

definition VQVAE_decode :: "environment \<Rightarrow> py_instance \<Rightarrow> pyval \<Rightarrow> error + pyval" where
  "VQVAE_decode env self quant =
     bind_result (getattr_self env self ''post_quant_conv'') (\<lambda>m.
     bind_result (call_module env m [quant]) (\<lambda>quant.
     bind_result (getattr_self env self ''decoder'') (\<lambda>m.
     call_module env m [quant])))"

definition VQVAE_decode_code :: "environment \<Rightarrow> py_instance \<Rightarrow> pyval \<Rightarrow> error + pyval" where
  "VQVAE_decode_code env self code_b =
     bind_result (getattr_self env self ''quantize'') (\<lambda>q.
     bind_result (call_method env q ''embed_code'' [code_b]) (\<lambda>quant_b.
     VQVAE_decode env self quant_b))"

definition VQVAE_get_codebook_indices :: "environment \<Rightarrow> py_instance \<Rightarrow> pyval \<Rightarrow> error + pyval" where
  "VQVAE_get_codebook_indices env self img =
     (case img of
        PyTensor t \<Rightarrow>
          (case shape t of
             [] \<Rightarrow> Inl IndexError
           | b # _ \<Rightarrow>
               (let img = PyTensor (t\<lparr>data := map (\<lambda>v. 2 * v - 1) (data t)\<rparr>) in
                bind_result (getattr_self env self ''model'') (\<lambda>model.
                bind_result (call_method env model ''encode'' [img]) (\<lambda>r.
                bind_result (unpack3 r) (\<lambda>(_, _, info).
                bind_result (unpack3 info) (\<lambda>(_, _, indices).
                rearrange_bn indices b))))))
      | _ \<Rightarrow> Inl (AttributeError ''shape''))"

definition VQVAE_forward :: "environment \<Rightarrow> py_instance \<Rightarrow> pyval \<Rightarrow> error + (pyval \<times> pyval)" where
  "VQVAE_forward env self input =
     bind_result (VQVAE_encode env self input) (\<lambda>(quant, diff, _).
     bind_result (VQVAE_decode env self quant) (\<lambda>dec.
     Inr (dec, diff)))"

text \<open>
  The reconstruction loss that the four step methods of vqvae.py compute alike:
  \<^verbatim>\<open>F.smooth_l1_loss(x, xrec, self.global_step)\<close> if \<^verbatim>\<open>self.smooth_l1_loss\<close>, else
  \<^verbatim>\<open>F.mse_loss(x, xrec, self.global_step)\<close>.
\<close>

definition reconstruction_loss :: "environment \<Rightarrow> py_instance \<Rightarrow> pyval \<Rightarrow> pyval \<Rightarrow> error + pyval" where
  "reconstruction_loss env self x xrec =
     bind_result (getattr_self env self ''smooth_l1_loss'') (\<lambda>flag.
     bind_result (getattr_self env self ''global_step'') (\<lambda>g.
     if truthy flag then functional env ''smooth_l1_loss'' [x, xrec, g]
     else functional env ''mse_loss'' [x, xrec, g]))"

definition VQVAE_configure_optimizers :: "environment \<Rightarrow> py_instance \<Rightarrow> error + pyval" where
  "VQVAE_configure_optimizers env self =
     bind_result (getattr_self env self ''hparams'') (\<lambda>hparams.
     bind_result (getattr_val hparams ''learning_rate'') (\<lambda>lr.
     bind_result (getattr_self env self ''parameters'') (\<lambda>params.
     bind_result (Adam params lr (0.5, 0.9)) (\<lambda>opt.
     bind_result (getattr_self env self ''args'') (\<lambda>args.
     bind_result (getattr_val args ''lr_decay_rate'') (\<lambda>gamma.
     bind_result (construct env ''ExponentialLR'' [opt, gamma]) (\<lambda>sched.
     Inr (PyTuple [opt, sched]))))))))"

subsection \<open>GumbelVQVAE\<close>

definition GumbelVQVAE_init ::
  "environment \<Rightarrow> py_instance \<Rightarrow> pyval \<Rightarrow> pyval \<Rightarrow> pyval \<Rightarrow> pyval \<Rightarrow> pyval \<Rightarrow> pyval \<Rightarrow> error + py_instance" where
  "GumbelVQVAE_init env self args batch_size learning_rate ignore_keys monitor remap =
     (let self = save_hyperparameters self
                   [(''args'', args), (''batch_size'', batch_size), (''learning_rate'', learning_rate),
                    (''ignore_keys'', ignore_keys), (''monitor'', monitor), (''remap'', remap)];
          self = setattr_self self ''args'' args
      in
      bind_result (VQVAE_init env self args batch_size learning_rate ignore_keys monitor PyNone
                     (PyBool False) default_normalization) (\<lambda>self.
      bind_result (getattr_val args ''n_embed'') (\<lambda>v.
      bind_result (getattr_self env self ''loss'') (\<lambda>loss_module.
      bind_result (setattr_val loss_module ''n_classes'' v) (\<lambda>loss_module.
      let self = setattr_self self ''loss'' loss_module in
      bind_result (getattr_val args ''n_embed'') (\<lambda>v.
      let self = setattr_self self ''vocab_size'' v in
      bind_result (getattrs args [''z_channels'', ''embed_dim'', ''n_embed'', ''kl_loss_weight'',
                                  ''starting_temp'']) (\<lambda>vs.
      bind_result (construct env ''GumbelQuantize'' (vs @ [remap])) (\<lambda>m.
      Inr (setattr_self self ''quantize'' m)))))))))"

definition GumbelVQVAE_new :: "environment \<Rightarrow> pyval \<Rightarrow> pyval \<Rightarrow> pyval \<Rightarrow> error + py_instance" where
  "GumbelVQVAE_new env args batch_size learning_rate =
     GumbelVQVAE_init env new_instance args batch_size learning_rate (PyList []) PyNone PyNone"

definition GumbelVQVAE_decode_code :: "environment \<Rightarrow> py_instance \<Rightarrow> pyval \<Rightarrow> error + pyval" where
  "GumbelVQVAE_decode_code env self code_b = Inl NotImplementedError"

text \<open>Method resolution: a subclass's definition of a method replaces its parent's.\<close>

datatype model_class = VQVAE | GumbelVQVAE

fun decode_code :: "model_class \<Rightarrow> environment \<Rightarrow> py_instance \<Rightarrow> pyval \<Rightarrow> error + pyval" where
  "decode_code VQVAE env self code_b = VQVAE_decode_code env self code_b"
| "decode_code GumbelVQVAE env self code_b = GumbelVQVAE_decode_code env self code_b"

definition GumbelVQVAE_get_codebook_indices :: "environment \<Rightarrow> py_instance \<Rightarrow> pyval \<Rightarrow> error + pyval" where
  "GumbelVQVAE_get_codebook_indices env self img =
     (case img of
        PyTensor t \<Rightarrow>
          (case shape t of
             [] \<Rightarrow> Inl IndexError
           | b # _ \<Rightarrow>
               (let img = PyTensor (t\<lparr>data := map (\<lambda>v. 2 * v - 1) (data t)\<rparr>) in
                bind_result (getattr_self env self ''model'') (\<lambda>model.
                bind_result (call_method env model ''encode'' [img]) (\<lambda>r.
                bind_result (unpack3 r) (\<lambda>(_, _, info).
                bind_result (unpack3 info) (\<lambda>(_, _, indices).
                rearrange_bhw indices b))))))
      | _ \<Rightarrow> Inl (AttributeError ''shape''))"

definition GumbelVQVAE_training_step ::
  "environment \<Rightarrow> py_instance \<Rightarrow> pyval \<Rightarrow> pyval \<Rightarrow> pyval \<Rightarrow> error + (pyval \<times> py_instance)" where
  "GumbelVQVAE_training_step env self batch batch_idx optimizer_idx =
     bind_result (unpack2 batch) (\<lambda>(x, _).
     bind_result (getattr_self env self ''temperature'') (\<lambda>t.
     bind_result (getattr_self env self ''anneal_rate'') (\<lambda>a.
     bind_result (getattr_self env self ''global_step'') (\<lambda>g.
     bind_result (decayed t a g) (\<lambda>v.
     bind_result (getattr_self env self ''temp_min'') (\<lambda>m.
     bind_result (py_max v m) (\<lambda>t.
     let self = setattr_self self ''temperature'' t in
     bind_result (getattr_self env self ''temperature'') (\<lambda>t.
     bind_result (getattr_self env self ''quantize'') (\<lambda>q.
     bind_result (setattr_val q ''temperature'' t) (\<lambda>q.
     let self = setattr_self self ''quantize'' q in
     bind_result (VQVAE_forward env self x) (\<lambda>(xrec, qloss).
     bind_result (reconstruction_loss env self x xrec) (\<lambda>aeloss.
     let self = log_call self ''train/rec_loss'' aeloss;
         self = log_call self ''train/embed_loss'' qloss
     in
     bind_result (py_add aeloss qloss) (\<lambda>r.
     Inr (r, self))))))))))))))"

definition GumbelVQVAE_validation_step ::
  "environment \<Rightarrow> py_instance \<Rightarrow> pyval \<Rightarrow> pyval \<Rightarrow> error + (pyval \<times> py_instance)" where
  "GumbelVQVAE_validation_step env self batch batch_idx =
     bind_result (unpack2 batch) (\<lambda>(x, _).
     bind_result (VQVAE_forward env self x) (\<lambda>(xrec, qloss).
     bind_result (getattr_self env self ''quantize'') (\<lambda>q.
     bind_result (setattr_val q ''temperature'' (PyFloat 1.0)) (\<lambda>q.
     let self = setattr_self self ''quantize'' q in
     bind_result (reconstruction_loss env self x xrec) (\<lambda>aeloss.
     let self = log_call self ''val/rec_loss'' aeloss;
         self = log_call self ''val/embed_loss'' qloss
     in
     bind_result (py_add aeloss qloss) (\<lambda>r.
     Inr (r, self)))))))"

text \<open>What a step returned, \<open>None\<close> when it raised.\<close>

definition returned_value :: "error + ('a \<times> py_instance) \<Rightarrow> 'a option" where
  "returned_value r = (case r of Inl e \<Rightarrow> None | Inr (v, self) \<Rightarrow> Some v)"

subsection \<open>A small concrete environment\<close>

text \<open>
  External constructors that build an object with no attributes, modules that return their
  argument, quantizers that return their argument with a loss term (the temperature for the
  Gumbel quantizer, 0 for the hard one), and loss functions that return 0.
\<close>

definition demo_env :: environment where
  "demo_env =
     \<lparr>construct = (\<lambda>c vs. Inr (PyObject c [])),
      call_module = (\<lambda>m vs.
        (case (m, vs) of
           (PyObject c kvs, [v]) \<Rightarrow>
             if c = ''GumbelQuantize'' then
               (case map_of kvs ''temperature'' of
                  Some t \<Rightarrow> Inr (PyTuple [v, t, PyNone])
                | None \<Rightarrow> Inl (AttributeError ''temperature''))
             else if c = ''VectorQuantizer'' then Inr (PyTuple [v, PyFloat 0, PyNone])
             else Inr v
         | _ \<Rightarrow> Inl TypeError)),
      call_method = (\<lambda>m name vs. (case vs of [v] \<Rightarrow> Inr v | _ \<Rightarrow> Inl TypeError)),
      functional = (\<lambda>name vs. Inr (PyFloat 0)),
      trainer_global_step = 0\<rparr>"

definition demo_args :: pyval where
  "demo_args =
     PyObject ''Namespace''
       [(''ch'', PyInt 128), (''out_ch'', PyInt 3), (''ch_mult'', PyList [PyInt 1, PyInt 2]),
        (''num_res_blocks'', PyInt 2), (''attn_resolutions'', PyList [PyInt 16]),
        (''dropout'', PyFloat 0), (''in_channels'', PyInt 3), (''resolution'', PyInt 256),
        (''z_channels'', PyInt 256), (''double_z'', PyBool False),
        (''smooth_l1_loss'', PyBool False), (''n_embed'', PyInt 512), (''embed_dim'', PyInt 64),
        (''lr_decay_rate'', PyFloat 0.99), (''kl_loss_weight'', PyFloat 0.01),
        (''starting_temp'', PyFloat 1)]"

definition demo_tensor :: pyval where
  "demo_tensor = PyTensor \<lparr>shape = [1], data = [3]\<rparr>"

text \<open>
  An instance with the attributes that the methods of \<^verbatim>\<open>GumbelVQVAE\<close> read, whose
  quantizer holds the temperature \<open>t\<close>.
\<close>

definition demo_gumbel_vqvae :: "real \<Rightarrow> py_instance" where
  "demo_gumbel_vqvae t =
     \<lparr>attributes =
        [(''quantize'', PyObject ''GumbelQuantize'' [(''temperature'', PyFloat t)]),
         (''post_quant_conv'', PyObject ''Conv2d'' []),
         (''quant_conv'', PyObject ''Conv2d'' []),
         (''smooth_l1_loss'', PyBool False),
         (''decoder'', PyObject ''Decoder'' []),
         (''encoder'', PyObject ''Encoder'' []),
         (''args'', demo_args)],
      log_calls = []\<rparr>"

definition demo_images :: pyval where
  "demo_images = PyTensor \<lparr>shape = [4, 1, 1, 1], data = [0, 1 / 2, 1, 1 / 4]\<rparr>"

text \<open>\<^verbatim>\<open>VQVAE(args, batch_size, learning_rate).get_codebook_indices(img)\<close>.\<close>

definition indices_of_new :: "environment \<Rightarrow> pyval \<Rightarrow> pyval \<Rightarrow> pyval \<Rightarrow> pyval \<Rightarrow> error + pyval" where
  "indices_of_new env args batch_size learning_rate img =
     bind_result (VQVAE_new env args batch_size learning_rate) (\<lambda>self.
     VQVAE_get_codebook_indices env self img)"

section \<open>Properties of vqgan.py\<close>

lemma bind_result_eq_Inr: "bind_result m f = Inr y \<longleftrightarrow> (\<exists>x. m = Inr x \<and> f x = Inr y)"
  by (cases m) simp_all

lemma forward_state:
  assumes "forward self x = Inr (r, s1)"
  shows "s1 = self\<lparr>forward_passes := forward_passes self + 1\<rparr>"
  using assms by (auto simp: forward_def bind_result_eq_Inr split: prod.splits)

lemma log_value_fields [simp]:
  "log_images (log_value s n v) = log_images s"
  "global_step (log_value s n v) = global_step s"
  "forward_passes (log_value s n v) = forward_passes s"
  "loss (log_value s n v) = loss s"
  "quantize (log_value s n v) = quantize s"
  "conv_out_weight (log_value s n v) = conv_out_weight s"
  by (simp_all add: log_value_def)

lemma demo_forward:
  "forward demo_vqgan demo_image = Inr ((demo_image, 1 / 4), demo_vqgan\<lparr>forward_passes := 1\<rparr>)"
  by (simp add: forward_def encode_def decode_def demo_vqgan_def)

text \<open>
  Claim C4. In \<^verbatim>\<open>VQGAN.training_step\<close>, once the forward pass has produced the
  reconstruction \<open>xrec\<close> and the quantization loss \<open>qloss\<close>: with optimizer index 0 the step
  returns the composite loss of autoencoder mode plus \<open>qloss\<close>; with optimizer index 1 it
  returns the composite loss of discriminator mode alone.
\<close>

theorem training_step_loss_by_phase:
  assumes fw: "forward self x = Inr ((xrec, qloss), s1)"
  shows "(loss self qloss x xrec 0 (global_step self) (get_last_layer self) ''train'' = Inr aeloss \<longrightarrow>
            (\<exists>out s'. training_step self (x # rest) batch_idx 0 = Inr (out, s') \<and>
                       loss_of out = aeloss + qloss))
       \<and> (loss self qloss x xrec 1 (global_step self) (get_last_layer self) ''train'' = Inr discloss \<longrightarrow>
            (\<exists>out s'. training_step self (x # rest) batch_idx 1 = Inr (out, s') \<and>
                       loss_of out = discloss))"
proof -
  have s1: "s1 = self\<lparr>forward_passes := forward_passes self + 1\<rparr>"
    using fw by (rule forward_state)
  show ?thesis
    using fw by (simp add: training_step_def training_body_def s1 get_last_layer_def Let_def)
qed

theorem training_step_loss_by_phase_witness:
  "forward demo_vqgan demo_image = Inr ((demo_image, 1 / 4), demo_vqgan\<lparr>forward_passes := 1\<rparr>)
   \<and> loss demo_vqgan (1 / 4) demo_image demo_image 0 (global_step demo_vqgan)
        (get_last_layer demo_vqgan) ''train'' = Inr 2
   \<and> loss demo_vqgan (1 / 4) demo_image demo_image 1 (global_step demo_vqgan)
        (get_last_layer demo_vqgan) ''train'' = Inr 3
   \<and> (\<exists>out s'. training_step demo_vqgan [demo_image] 0 0 = Inr (out, s') \<and> loss_of out = 2 + 1 / 4)
   \<and> (\<exists>out s'. training_step demo_vqgan [demo_image] 0 1 = Inr (out, s') \<and> loss_of out = 3)"
proof -
  have l0: "loss demo_vqgan (1 / 4) demo_image demo_image 0 (global_step demo_vqgan)
              (get_last_layer demo_vqgan) ''train'' = Inr 2"
    by (simp add: demo_vqgan_def)
  have l1: "loss demo_vqgan (1 / 4) demo_image demo_image 1 (global_step demo_vqgan)
              (get_last_layer demo_vqgan) ''train'' = Inr 3"
    by (simp add: demo_vqgan_def)
  show ?thesis
    using training_step_loss_by_phase [OF demo_forward, of 2 "[]" 0 3] demo_forward l0 l1 by simp
qed

lemma training_body_state:
  assumes "training_body self x k = Inr (out, s')"
  shows "s' = self\<lparr>forward_passes := forward_passes self + 1, logged := logged s'\<rparr>"
proof -
  from assms obtain xrec qloss s1 where fw: "forward self x = Inr ((xrec, qloss), s1)"
    by (auto simp: training_body_def bind_result_eq_Inr)
  have s1: "s1 = self\<lparr>forward_passes := forward_passes self + 1\<rparr>"
    using fw by (rule forward_state)
  let ?call = "loss s1 qloss x xrec k (global_step s1) (get_last_layer s1) ''train''"
  consider (ae) "k = 0" | (disc) "k = 1" | (other) "k \<noteq> 0" "k \<noteq> 1"
    by blast
  then show ?thesis
  proof cases
    case ae
    show ?thesis
    proof (cases ?call)
      case (Inl e)
      with assms ae fw show ?thesis by (simp add: training_body_def)
    next
      case (Inr aeloss)
      with assms ae fw show ?thesis
        by (auto simp: training_body_def Let_def log_value_def s1 split: if_splits)
    qed
  next
    case disc
    show ?thesis
    proof (cases ?call)
      case (Inl e)
      with assms disc fw show ?thesis by (simp add: training_body_def)
    next
      case (Inr discloss)
      with assms disc fw show ?thesis
        by (auto simp: training_body_def Let_def log_value_def s1 split: if_splits)
    qed
  next
    case other
    with assms fw show ?thesis by (simp add: training_body_def)
  qed
qed

lemma training_step_state:
  assumes "training_step self batch i k = Inr (out, s')"
  shows "s' = self\<lparr>forward_passes := forward_passes self + 1, logged := logged s'\<rparr>"
proof (cases batch)
  case Nil
  with assms show ?thesis by (simp add: training_step_def)
next
  case (Cons x rest)
  with assms have "training_body self x k = Inr (out, s')"
    by (simp add: training_step_def)
  then show ?thesis by (rule training_body_state)
qed

lemma math_exp_Inr:
  assumes "math_exp x = Inr e"
  shows "e = exp x"
  using assms by (simp add: math_exp_def split: if_splits)

lemma math_exp_nonpos:
  assumes "x \<le> 0"
  shows "math_exp x = Inr (exp x)"
proof -
  have "exp x \<le> 1" using assms by simp
  moreover have "(1::real) < 2 ^ 1024" by (rule one_less_power) simp_all
  ultimately have "\<not> 2 ^ 1024 \<le> exp x" by linarith
  then show ?thesis by (simp only: math_exp_def if_False)
qed

lemma gumbel_training_step_body:
  assumes "gumbel_training_step self (x # rest) i k = Inr (out, s')"
  shows "training_body (self\<lparr>temperature := annealed self,
                         quantize := (quantize self)\<lparr>quantize_temperature := annealed self\<rparr>\<rparr>) x k
           = Inr (out, s')"
proof -
  from assms obtain e where
    e: "math_exp (- anneal_rate self * real (global_step self)) = Inr e" and
    b: "training_body (self\<lparr>temperature := max (temperature self * e) (temp_min self),
          quantize := (quantize self)\<lparr>quantize_temperature :=
                         max (temperature self * e) (temp_min self)\<rparr>\<rparr>) x k = Inr (out, s')"
    by (auto simp: gumbel_training_step_def bind_result_eq_Inr Let_def)
  have "e = exp (- anneal_rate self * real (global_step self))"
    using e by (rule math_exp_Inr)
  with b show ?thesis by (simp add: annealed_def)
qed

lemma gumbel_training_step_state:
  assumes "gumbel_training_step self batch i k = Inr (out, s')"
  shows "s' = self\<lparr>temperature := annealed self,
                    quantize := (quantize self)\<lparr>quantize_temperature := annealed self\<rparr>,
                    forward_passes := forward_passes self + 1, logged := logged s'\<rparr>"
proof (cases batch)
  case Nil
  with assms show ?thesis by (simp add: gumbel_training_step_def)
next
  case (Cons x rest)
  with assms have "gumbel_training_step self (x # rest) i k = Inr (out, s')"
    by simp
  then have "training_body (self\<lparr>temperature := annealed self,
      quantize := (quantize self)\<lparr>quantize_temperature := annealed self\<rparr>\<rparr>) x k = Inr (out, s')"
    by (rule gumbel_training_step_body)
  from training_body_state [OF this] show ?thesis by simp
qed

lemma training_step_forward_passes:
  assumes "training_step self batch i k = Inr (out, s')"
  shows "forward_passes s' = forward_passes self + 1"
proof -
  have "forward_passes s' =
        forward_passes (self\<lparr>forward_passes := forward_passes self + 1, logged := logged s'\<rparr>)"
    by (rule arg_cong [OF training_step_state [OF assms]])
  then show ?thesis by simp
qed

lemma gumbel_training_step_forward_passes:
  assumes "gumbel_training_step self batch i k = Inr (out, s')"
  shows "forward_passes s' = forward_passes self + 1"
proof -
  have "forward_passes s' =
        forward_passes (self\<lparr>temperature := annealed self,
                    quantize := (quantize self)\<lparr>quantize_temperature := annealed self\<rparr>,
                    forward_passes := forward_passes self + 1, logged := logged s'\<rparr>)"
    by (rule arg_cong [OF gumbel_training_step_state [OF assms]])
  then show ?thesis by simp
qed

lemmas demo_eval = train_batch_def gumbel_train_batch_def training_step_def gumbel_training_step_def
  training_body_def forward_def encode_def decode_def log_value_def get_last_layer_def
  demo_vqgan_def demo_gumbel_def GumbelVQGAN_init_def demo_image_def Let_def math_exp_nonpos

lemma demo_steps_return:
  "\<exists>out s'. training_step demo_vqgan [demo_image] 0 0 = Inr (out, s')"
  "\<exists>gout g'. gumbel_training_step demo_gumbel [demo_image] 0 0 = Inr (gout, g')"
  "\<exists>outs s''. train_batch demo_vqgan [demo_image] 0 = Inr (outs, s'')"
  "\<exists>gouts g''. gumbel_train_batch demo_gumbel [demo_image] 0 = Inr (gouts, g'')"
  by (simp_all add: demo_eval)

lemma demo_gumbel_late_returns:
  "\<exists>out s'. gumbel_training_step demo_gumbel_late [demo_image] 0 0 = Inr (out, s')"
  by (simp add: demo_gumbel_late_def demo_eval)

lemma exp_minus_large: "exp (- 100000 :: real) \<le> 1 / 10"
proof -
  have "(10::real) \<le> 1 + 100000" by simp
  also have "\<dots> \<le> exp 100000" by (rule exp_ge_add_one_self)
  finally have "inverse (exp (100000::real)) \<le> inverse 10"
    by (intro le_imp_inverse_le) simp_all
  then show ?thesis by (simp add: exp_minus)
qed

lemma exp_minus_one_bounds: "1 / 10 < exp (- 1 :: real)" "exp (- 1 :: real) < 1"
proof -
  have "exp (1::real) \<le> 3" by (rule exp_le)
  then have "exp (1::real) < 10" by simp
  then have "inverse 10 < inverse (exp (1::real))"
    by (intro less_imp_inverse_less) simp_all
  then show "1 / 10 < exp (- 1 :: real)" by (simp add: exp_minus)
  show "exp (- 1 :: real) < 1" by simp
qed

lemma training_body_loss:
  assumes "training_body self x k = Inr (out, s')"
  shows "\<exists>xrec qloss s1 c.
           forward self x = Inr ((xrec, qloss), s1) \<and> (k = 0 \<or> k = 1) \<and>
           loss self qloss x xrec k (global_step self) (get_last_layer self) ''train'' = Inr c \<and>
           loss_of out = (if k = 0 then c + qloss else c)"
proof -
  from assms obtain xrec qloss s1 where fw: "forward self x = Inr ((xrec, qloss), s1)"
    by (auto simp: training_body_def bind_result_eq_Inr)
  have s1: "s1 = self\<lparr>forward_passes := forward_passes self + 1\<rparr>"
    using fw by (rule forward_state)
  let ?call = "loss self qloss x xrec k (global_step self) (get_last_layer self) ''train''"
  consider (ae) "k = 0" | (disc) "k = 1" | (other) "k \<noteq> 0" "k \<noteq> 1"
    by blast
  then show ?thesis
  proof cases
    case ae
    show ?thesis
    proof (cases ?call)
      case (Inl e)
      with assms ae fw show ?thesis by (simp add: training_body_def s1 get_last_layer_def)
    next
      case (Inr aeloss)
      with assms ae fw have "loss_of out = aeloss + qloss"
        by (auto simp: training_body_def Let_def s1 get_last_layer_def split: if_splits)
      with Inr ae fw show ?thesis by simp
    qed
  next
    case disc
    show ?thesis
    proof (cases ?call)
      case (Inl e)
      with assms disc fw show ?thesis by (simp add: training_body_def s1 get_last_layer_def)
    next
      case (Inr discloss)
      with assms disc fw have "loss_of out = discloss"
        by (auto simp: training_body_def Let_def s1 get_last_layer_def split: if_splits)
      with Inr disc fw show ?thesis by simp
    qed
  next
    case other
    with assms fw show ?thesis by (simp add: training_body_def)
  qed
qed

lemma training_step_loss:
  assumes "training_step self batch i k = Inr (out, s')"
  shows "\<exists>x rest xrec qloss s1 c.
           batch = x # rest \<and> forward self x = Inr ((xrec, qloss), s1) \<and> (k = 0 \<or> k = 1) \<and>
           loss self qloss x xrec k (global_step self) (get_last_layer self) ''train'' = Inr c \<and>
           loss_of out = (if k = 0 then c + qloss else c)"
proof (cases batch)
  case Nil
  with assms show ?thesis by (simp add: training_step_def)
next
  case (Cons x rest)
  with assms have "training_body self x k = Inr (out, s')"
    by (simp add: training_step_def)
  from training_body_loss [OF this] Cons show ?thesis by blast
qed

lemma gumbel_training_step_loss:
  assumes "gumbel_training_step g batch i k = Inr (out, g')"
  shows "\<exists>x rest xrec qloss s1 c.
           batch = x # rest \<and>
           forward (g\<lparr>temperature := annealed g,
                      quantize := (quantize g)\<lparr>quantize_temperature := annealed g\<rparr>\<rparr>) x
             = Inr ((xrec, qloss), s1) \<and> (k = 0 \<or> k = 1) \<and>
           loss g qloss x xrec k (global_step g) (get_last_layer g) ''train'' = Inr c \<and>
           loss_of out = (if k = 0 then c + qloss else c)"
proof (cases batch)
  case Nil
  with assms show ?thesis by (simp add: gumbel_training_step_def)
next
  case (Cons x rest)
  with assms have "gumbel_training_step g (x # rest) i k = Inr (out, g')"
    by simp
  then have "training_body (g\<lparr>temperature := annealed g,
      quantize := (quantize g)\<lparr>quantize_temperature := annealed g\<rparr>\<rparr>) x k = Inr (out, g')"
    by (rule gumbel_training_step_body)
  from training_body_loss [OF this] Cons show ?thesis
    by (simp add: get_last_layer_def)
qed

text \<open>
  Claim C2, as amended. Every call of \<^verbatim>\<open>training_step\<close> that returns, of \<^verbatim>\<open>VQGAN\<close> and
  of \<^verbatim>\<open>GumbelVQGAN\<close>, has run the forward pass exactly once, and the loss it returns is
  the composite loss of its own phase applied to the reconstruction and the quantization
  loss of that forward pass (plus the quantization loss in phase 0). The trainer calls
  \<^verbatim>\<open>training_step\<close> once per optimizer index, so on every batch the forward pass runs
  twice: phase 1 runs its own forward pass, on the instance that phase 0 left, and computes
  its loss from that second result, not from the result of phase 0.
\<close>

theorem forward_once_per_training_step:
  fixes self :: "('q, 'z) vqgan_scheme" and g :: gumbel_vqgan
  shows "(training_step self batch i k = Inr (out, s') \<longrightarrow>
            forward_passes s' = forward_passes self + 1 \<and>
            (\<exists>x rest xrec qloss s1 c.
               batch = x # rest \<and> forward self x = Inr ((xrec, qloss), s1) \<and> (k = 0 \<or> k = 1) \<and>
               loss self qloss x xrec k (global_step self) (get_last_layer self) ''train'' = Inr c \<and>
               loss_of out = (if k = 0 then c + qloss else c)))
       \<and> (gumbel_training_step g batch i k = Inr (gout, g') \<longrightarrow>
            forward_passes g' = forward_passes g + 1 \<and>
            (\<exists>x rest xrec qloss s1 c.
               batch = x # rest \<and>
               forward (g\<lparr>temperature := annealed g,
                          quantize := (quantize g)\<lparr>quantize_temperature := annealed g\<rparr>\<rparr>) x
                 = Inr ((xrec, qloss), s1) \<and> (k = 0 \<or> k = 1) \<and>
               loss g qloss x xrec k (global_step g) (get_last_layer g) ''train'' = Inr c \<and>
               loss_of gout = (if k = 0 then c + qloss else c)))
       \<and> (train_batch self batch i = Inr ((out0, out1), s'') \<longrightarrow>
            forward_passes s'' = forward_passes self + 2 \<and>
            (\<exists>t x rest xrec0 qloss0 s0 c0 xrec1 qloss1 s1 c1.
               batch = x # rest \<and>
               training_step self batch i 0 = Inr (out0, t) \<and>
               training_step t batch i 1 = Inr (out1, s'') \<and>
               forward self x = Inr ((xrec0, qloss0), s0) \<and>
               loss self qloss0 x xrec0 0 (global_step self) (get_last_layer self) ''train'' = Inr c0 \<and>
               loss_of out0 = c0 + qloss0 \<and>
               forward t x = Inr ((xrec1, qloss1), s1) \<and>
               loss t qloss1 x xrec1 1 (global_step t) (get_last_layer t) ''train'' = Inr c1 \<and>
               loss_of out1 = c1))
       \<and> (gumbel_train_batch g batch i = Inr ((gout0, gout1), g'') \<longrightarrow>
            forward_passes g'' = forward_passes g + 2 \<and>
            (\<exists>t x rest xrec0 qloss0 s0 c0 xrec1 qloss1 s1 c1.
               batch = x # rest \<and>
               gumbel_training_step g batch i 0 = Inr (gout0, t) \<and>
               gumbel_training_step t batch i 1 = Inr (gout1, g'') \<and>
               forward (g\<lparr>temperature := annealed g,
                          quantize := (quantize g)\<lparr>quantize_temperature := annealed g\<rparr>\<rparr>) x
                 = Inr ((xrec0, qloss0), s0) \<and>
               loss g qloss0 x xrec0 0 (global_step g) (get_last_layer g) ''train'' = Inr c0 \<and>
               loss_of gout0 = c0 + qloss0 \<and>
               forward (t\<lparr>temperature := annealed t,
                          quantize := (quantize t)\<lparr>quantize_temperature := annealed t\<rparr>\<rparr>) x
                 = Inr ((xrec1, qloss1), s1) \<and>
               loss t qloss1 x xrec1 1 (global_step t) (get_last_layer t) ''train'' = Inr c1 \<and>
               loss_of gout1 = c1))"
proof (intro conjI impI)
  assume a: "training_step self batch i k = Inr (out, s')"
  show "forward_passes s' = forward_passes self + 1"
    using a by (rule training_step_forward_passes)
  show "\<exists>x rest xrec qloss s1 c.
               batch = x # rest \<and> forward self x = Inr ((xrec, qloss), s1) \<and> (k = 0 \<or> k = 1) \<and>
               loss self qloss x xrec k (global_step self) (get_last_layer self) ''train'' = Inr c \<and>
               loss_of out = (if k = 0 then c + qloss else c)"
    using a by (rule training_step_loss)
next
  assume a: "gumbel_training_step g batch i k = Inr (gout, g')"
  show "forward_passes g' = forward_passes g + 1"
    using a by (rule gumbel_training_step_forward_passes)
  show "\<exists>x rest xrec qloss s1 c.
               batch = x # rest \<and>
               forward (g\<lparr>temperature := annealed g,
                          quantize := (quantize g)\<lparr>quantize_temperature := annealed g\<rparr>\<rparr>) x
                 = Inr ((xrec, qloss), s1) \<and> (k = 0 \<or> k = 1) \<and>
               loss g qloss x xrec k (global_step g) (get_last_layer g) ''train'' = Inr c \<and>
               loss_of gout = (if k = 0 then c + qloss else c)"
    using a by (rule gumbel_training_step_loss)
next
  assume "train_batch self batch i = Inr ((out0, out1), s'')"
  then obtain t where
    a: "training_step self batch i 0 = Inr (out0, t)" and
    b: "training_step t batch i 1 = Inr (out1, s'')"
    by (auto simp: train_batch_def bind_result_eq_Inr)
  from training_step_forward_passes [OF a] training_step_forward_passes [OF b]
  show "forward_passes s'' = forward_passes self + 2"
    by simp
  from training_step_loss [OF a] obtain x rest xrec0 qloss0 s0 c0 where
    p0: "batch = x # rest" "forward self x = Inr ((xrec0, qloss0), s0)"
      "loss self qloss0 x xrec0 0 (global_step self) (get_last_layer self) ''train'' = Inr c0"
      "loss_of out0 = c0 + qloss0"
    by auto
  from training_step_loss [OF b] p0(1) obtain xrec1 qloss1 s1 c1 where
    p1: "forward t x = Inr ((xrec1, qloss1), s1)"
      "loss t qloss1 x xrec1 1 (global_step t) (get_last_layer t) ''train'' = Inr c1"
      "loss_of out1 = c1"
    by auto
  from a b p0 p1
  show "\<exists>t x rest xrec0 qloss0 s0 c0 xrec1 qloss1 s1 c1.
               batch = x # rest \<and>
               training_step self batch i 0 = Inr (out0, t) \<and>
               training_step t batch i 1 = Inr (out1, s'') \<and>
               forward self x = Inr ((xrec0, qloss0), s0) \<and>
               loss self qloss0 x xrec0 0 (global_step self) (get_last_layer self) ''train'' = Inr c0 \<and>
               loss_of out0 = c0 + qloss0 \<and>
               forward t x = Inr ((xrec1, qloss1), s1) \<and>
               loss t qloss1 x xrec1 1 (global_step t) (get_last_layer t) ''train'' = Inr c1 \<and>
               loss_of out1 = c1"
    by blast
next
  assume "gumbel_train_batch g batch i = Inr ((gout0, gout1), g'')"
  then obtain t where
    a: "gumbel_training_step g batch i 0 = Inr (gout0, t)" and
    b: "gumbel_training_step t batch i 1 = Inr (gout1, g'')"
    by (auto simp: gumbel_train_batch_def bind_result_eq_Inr)
  from gumbel_training_step_forward_passes [OF a] gumbel_training_step_forward_passes [OF b]
  show "forward_passes g'' = forward_passes g + 2"
    by simp
  from gumbel_training_step_loss [OF a] obtain x rest xrec0 qloss0 s0 c0 where
    p0: "batch = x # rest"
      "forward (g\<lparr>temperature := annealed g,
                  quantize := (quantize g)\<lparr>quantize_temperature := annealed g\<rparr>\<rparr>) x
         = Inr ((xrec0, qloss0), s0)"
      "loss g qloss0 x xrec0 0 (global_step g) (get_last_layer g) ''train'' = Inr c0"
      "loss_of gout0 = c0 + qloss0"
    by auto
  from gumbel_training_step_loss [OF b] p0(1) obtain xrec1 qloss1 s1 c1 where
    p1: "forward (t\<lparr>temperature := annealed t,
                  quantize := (quantize t)\<lparr>quantize_temperature := annealed t\<rparr>\<rparr>) x
         = Inr ((xrec1, qloss1), s1)"
      "loss t qloss1 x xrec1 1 (global_step t) (get_last_layer t) ''train'' = Inr c1"
      "loss_of gout1 = c1"
    by auto
  from a b p0 p1
  show "\<exists>t x rest xrec0 qloss0 s0 c0 xrec1 qloss1 s1 c1.
               batch = x # rest \<and>
               gumbel_training_step g batch i 0 = Inr (gout0, t) \<and>
               gumbel_training_step t batch i 1 = Inr (gout1, g'') \<and>
               forward (g\<lparr>temperature := annealed g,
                          quantize := (quantize g)\<lparr>quantize_temperature := annealed g\<rparr>\<rparr>) x
                 = Inr ((xrec0, qloss0), s0) \<and>
               loss g qloss0 x xrec0 0 (global_step g) (get_last_layer g) ''train'' = Inr c0 \<and>
               loss_of gout0 = c0 + qloss0 \<and>
               forward (t\<lparr>temperature := annealed t,
                          quantize := (quantize t)\<lparr>quantize_temperature := annealed t\<rparr>\<rparr>) x
                 = Inr ((xrec1, qloss1), s1) \<and>
               loss t qloss1 x xrec1 1 (global_step t) (get_last_layer t) ''train'' = Inr c1 \<and>
               loss_of gout1 = c1"
    by blast
qed

theorem forward_once_per_training_step_witness:
  "(\<exists>out s'. training_step demo_vqgan [demo_image] 0 0 = Inr (out, s') \<and> forward_passes s' = 1)
   \<and> (\<exists>gout g'. gumbel_training_step demo_gumbel [demo_image] 0 0 = Inr (gout, g') \<and> forward_passes g' = 1)
   \<and> (\<exists>outs s''. train_batch demo_vqgan [demo_image] 0 = Inr (outs, s'') \<and> forward_passes s'' = 2)
   \<and> (\<exists>gouts g''. gumbel_train_batch demo_gumbel [demo_image] 0 = Inr (gouts, g'') \<and> forward_passes g'' = 2)"
proof -
  obtain out s' gout g' out0 out1 s'' gout0 gout1 g'' where r:
    "training_step demo_vqgan [demo_image] 0 0 = Inr (out, s')"
    "gumbel_training_step demo_gumbel [demo_image] 0 0 = Inr (gout, g')"
    "train_batch demo_vqgan [demo_image] 0 = Inr ((out0, out1), s'')"
    "gumbel_train_batch demo_gumbel [demo_image] 0 = Inr ((gout0, gout1), g'')"
    using demo_steps_return by (metis surj_pair)
  have z: "forward_passes demo_vqgan = 0" "forward_passes demo_gumbel = 0"
    by (simp_all add: demo_vqgan_def demo_gumbel_def GumbelVQGAN_init_def)
  from forward_once_per_training_step
      [of demo_vqgan "[demo_image]" 0 0 out s' demo_gumbel gout g' out0 out1 s'' gout0 gout1 g''] r
  have "forward_passes s' = forward_passes demo_vqgan + 1"
       "forward_passes g' = forward_passes demo_gumbel + 1"
       "forward_passes s'' = forward_passes demo_vqgan + 2"
       "forward_passes g'' = forward_passes demo_gumbel + 2"
    by blast+
  with r z show ?thesis by simp
qed


text \<open>
  Claim C2 as stated fails: on a batch of the concrete instance, which starts with no forward
  pass counted, the two phases together run the forward pass twice.
\<close>

theorem train_batch_runs_forward_twice:
  "forward_passes demo_vqgan = 0 \<and>
   forward_passes_after (train_batch demo_vqgan [demo_image] 0) = Some 2"
  by (simp add: forward_passes_after_def demo_eval)

text \<open>
  Claim C1, as amended, for \<^verbatim>\<open>GumbelVQGAN\<close>. A training step that returns has set the
  quantizer's temperature and \<^verbatim>\<open>self.temperature\<close>, before its forward pass, to
  \<open>max (t * exp (- anneal_rate * global_step)) temp_min\<close>, where \<open>t\<close> is the value of
  \<^verbatim>\<open>self.temperature\<close> when the step starts (the starting temperature only on the first
  step). With \<open>t = 1\<close>, rate \<open>1 / 10000\<close> and minimum \<open>1 / 10\<close> the temperature at step
  10000 is \<open>max (1 * exp (- 1)) (1 / 10)\<close>; with any \<open>t \<le> 1\<close> it is exactly \<open>1 / 10\<close>
  at step \<open>10^9\<close>.
\<close>

theorem gumbel_training_step_temperature:
  assumes "gumbel_training_step self (x # rest) batch_idx optimizer_idx = Inr (out, self')"
  shows "quantize_temperature (quantize self') =
           max (temperature self * exp (- anneal_rate self * real (global_step self))) (temp_min self)
       \<and> temperature self' = quantize_temperature (quantize self')
       \<and> training_body
            (self\<lparr>temperature := annealed self,
                   quantize := (quantize self)\<lparr>quantize_temperature := annealed self\<rparr>\<rparr>)
            x optimizer_idx = Inr (out, self')
       \<and> (temperature self = 1 \<and> anneal_rate self = 1 / 10000 \<and> temp_min self = 1 / 10 \<and>
            global_step self = 10000 \<longrightarrow>
              quantize_temperature (quantize self') = max (1 * exp (- 1)) (1 / 10))
       \<and> (temperature self \<le> 1 \<and> anneal_rate self = 1 / 10000 \<and> temp_min self = 1 / 10 \<and>
            global_step self = 1000000000 \<longrightarrow>
              quantize_temperature (quantize self') = 1 / 10)"
proof -
  let ?s = "self\<lparr>temperature := annealed self,
                    quantize := (quantize self)\<lparr>quantize_temperature := annealed self\<rparr>,
                    forward_passes := forward_passes self + 1, logged := logged self'\<rparr>"
  have st: "self' = ?s"
    by (rule gumbel_training_step_state [OF assms])
  have "quantize_temperature (quantize self') = quantize_temperature (quantize ?s)"
    by (rule arg_cong [OF st])
  then have q: "quantize_temperature (quantize self') = annealed self" by simp
  have "temperature self' = temperature ?s"
    by (rule arg_cong [OF st])
  then have t: "temperature self' = annealed self" by simp
  have body: "training_body
            (self\<lparr>temperature := annealed self,
                   quantize := (quantize self)\<lparr>quantize_temperature := annealed self\<rparr>\<rparr>)
            x optimizer_idx = Inr (out, self')"
    using assms by (rule gumbel_training_step_body)
  have first: "annealed self = max (1 * exp (- 1)) (1 / 10)"
    if h: "temperature self = 1 \<and> anneal_rate self = 1 / 10000 \<and> temp_min self = 1 / 10 \<and>
        global_step self = 10000"
  proof -
    from h have a: "temperature self = 1" "anneal_rate self = 1 / 10000" "temp_min self = 1 / 10"
      "global_step self = 10000" by blast+
    show ?thesis unfolding annealed_def a by simp
  qed
  have late: "annealed self = 1 / 10"
    if h: "temperature self \<le> 1 \<and> anneal_rate self = 1 / 10000 \<and> temp_min self = 1 / 10 \<and>
        global_step self = 1000000000"
  proof -
    from h have a: "temperature self \<le> 1" "anneal_rate self = 1 / 10000" "temp_min self = 1 / 10"
      "global_step self = 1000000000" by blast+
    have e: "exp (- (1 / 10000) * real (1000000000::nat)) = exp (- 100000 :: real)"
      by simp
    have "temperature self * exp (- 100000) \<le> 1 * exp (- 100000 :: real)"
      using a(1) by (intro mult_right_mono) simp_all
    also have "\<dots> \<le> 1 / 10" using exp_minus_large by simp
    finally have "temperature self * exp (- 100000) \<le> 1 / 10" .
    then show ?thesis
      unfolding annealed_def a(2-4) e by (simp add: max_def)
  qed
  have q': "quantize_temperature (quantize self') =
           max (temperature self * exp (- anneal_rate self * real (global_step self))) (temp_min self)"
    using q by (simp add: annealed_def)
  show ?thesis
  proof (intro conjI impI)
    show "quantize_temperature (quantize self') =
           max (temperature self * exp (- anneal_rate self * real (global_step self))) (temp_min self)"
      by (rule q')
    show "temperature self' = quantize_temperature (quantize self')"
      by (simp only: t q)
    show "training_body
            (self\<lparr>temperature := annealed self,
                   quantize := (quantize self)\<lparr>quantize_temperature := annealed self\<rparr>\<rparr>)
            x optimizer_idx = Inr (out, self')"
      by (rule body)
  next
    assume h: "temperature self = 1 \<and> anneal_rate self = 1 / 10000 \<and> temp_min self = 1 / 10 \<and>
        global_step self = 10000"
    show "quantize_temperature (quantize self') = max (1 * exp (- 1)) (1 / 10)"
      by (simp only: q first [OF h])
  next
    assume h: "temperature self \<le> 1 \<and> anneal_rate self = 1 / 10000 \<and> temp_min self = 1 / 10 \<and>
        global_step self = 1000000000"
    show "quantize_temperature (quantize self') = 1 / 10"
      by (simp only: q late [OF h])
  qed
qed


theorem gumbel_training_step_temperature_witness:
  "(\<exists>out s'. gumbel_training_step demo_gumbel [demo_image] 0 0 = Inr (out, s') \<and>
        quantize_temperature (quantize s') = max (1 * exp (- 1)) (1 / 10))
   \<and> (\<exists>out s'. gumbel_training_step demo_gumbel_late [demo_image] 0 0 = Inr (out, s') \<and>
        quantize_temperature (quantize s') = 1 / 10)"
proof -
  obtain out1 s1 where r1: "gumbel_training_step demo_gumbel [demo_image] 0 0 = Inr (out1, s1)"
    using demo_steps_return(2) by blast
  obtain out2 s2 where r2: "gumbel_training_step demo_gumbel_late [demo_image] 0 0 = Inr (out2, s2)"
    using demo_gumbel_late_returns by blast
  have f1: "temperature demo_gumbel = 1 \<and> anneal_rate demo_gumbel = 1 / 10000 \<and>
            temp_min demo_gumbel = 1 / 10 \<and> global_step demo_gumbel = 10000"
    by (simp add: demo_gumbel_def GumbelVQGAN_init_def demo_vqgan_def)
  have f2: "temperature demo_gumbel_late \<le> 1 \<and> anneal_rate demo_gumbel_late = 1 / 10000 \<and>
            temp_min demo_gumbel_late = 1 / 10 \<and> global_step demo_gumbel_late = 1000000000"
    by (simp add: demo_gumbel_late_def demo_gumbel_def GumbelVQGAN_init_def demo_vqgan_def)
  have "quantize_temperature (quantize s1) = max (1 * exp (- 1)) (1 / 10)"
    using gumbel_training_step_temperature [OF r1] f1 by blast
  moreover have "quantize_temperature (quantize s2) = 1 / 10"
    using gumbel_training_step_temperature [OF r2] f2 by blast
  ultimately show ?thesis using r1 r2 by blast
qed

text \<open>
  Claim C1 as stated fails: with starting temperature 1, rate \<open>1 / 10000\<close> and minimum
  \<open>1 / 10\<close>, after the two training steps of one batch at global step 10000 the quantizer's
  temperature is not \<open>max (1 * exp (- 1)) (1 / 10)\<close>: the second step decayed the result of
  the first.
\<close>

theorem second_step_temperature_compounds:
  "temperature demo_gumbel = 1 \<and> anneal_rate demo_gumbel = 1 / 10000 \<and>
   temp_min demo_gumbel = 1 / 10 \<and> global_step demo_gumbel = 10000 \<and>
   quantize_temperature_after (gumbel_train_batch demo_gumbel [demo_image] 0)
     \<noteq> Some (max (1 * exp (- (1 / 10000) * 10000)) (1 / 10))"
proof -
  define a where "a = exp (- 1 :: real)"
  have a: "1 / 10 < a" "a < 1" "0 < a"
    using exp_minus_one_bounds by (simp_all add: a_def)
  have "a * a < a * 1"
    using a by (intro mult_strict_left_mono) simp_all
  then have m: "max (max a (1 / 10) * a) (1 / 10) < max a (1 / 10)"
    using a by (simp add: max_def)
  have ev: "quantize_temperature_after (gumbel_train_batch demo_gumbel [demo_image] 0)
              = Some (max (max a (1 / 10) * a) (1 / 10))"
    by (simp add: quantize_temperature_after_def demo_eval a_def)
  have f1: "temperature demo_gumbel = 1 \<and> anneal_rate demo_gumbel = 1 / 10000 \<and>
            temp_min demo_gumbel = 1 / 10 \<and> global_step demo_gumbel = 10000"
    by (simp add: demo_gumbel_def GumbelVQGAN_init_def demo_vqgan_def)
  have rhs: "(max (1 * exp (- (1 / 10000) * 10000)) (1 / 10) :: real) = max a (1 / 10)"
    by (simp add: a_def)
  have ne: "max (max a (1 / 10) * a) (1 / 10) \<noteq> max a (1 / 10)"
    using m by (rule less_imp_neq)
  have "quantize_temperature_after (gumbel_train_batch demo_gumbel [demo_image] 0)
          \<noteq> Some (max (1 * exp (- (1 / 10000) * 10000)) (1 / 10))"
    unfolding ev rhs using ne by blast
  with f1 show ?thesis by blast
qed


lemma get_codebook_indices_shape:
  assumes "shape img = b # rest" and "0 < b"
    and "encode self (img\<lparr>data := map (\<lambda>v. 2 * v - 1) (data img)\<rparr>) =
           Inr (quant, emb_loss, (perplexity, encodings, indices))"
    and "shape indices = [b * n]" and "length (data indices) = b * n"
  shows "get_codebook_indices self img = Inr (indices\<lparr>shape := [b, n]\<rparr>)"
  using assms by (simp add: get_codebook_indices_def view_def Let_def)

lemma get_codebook_indices_end_to_end:
  assumes "shape img = [4, 3, 256, 256]"
    and "encode self (img\<lparr>data := map (\<lambda>v. 2 * v - 1) (data img)\<rparr>) =
           Inr (quant, emb_loss, (perplexity, encodings, indices))"
    and "shape indices = [4096]" and "length (data indices) = 4096"
  shows "\<exists>t. get_codebook_indices self img = Inr t \<and> shape t = [4, 1024]"
  using get_codebook_indices_shape [of img 4 "[3, 256, 256]" self quant emb_loss perplexity encodings indices 1024]
    assms by simp

lemma gumbel_validation_step_temperature:
  "gumbel_validation_step self (x # rest) batch_idx =
     validation_body (self\<lparr>quantize := (quantize self)\<lparr>quantize_temperature := 1\<rparr>\<rparr>) x"
  by (simp add: gumbel_validation_step_def Let_def)

lemma int_sqrt_square: "int_sqrt (k * k) = k"
proof -
  have "sqrt (real (k * k)) = real k" by simp
  then show ?thesis by (simp add: int_sqrt_def)
qed

lemma length_concat_map_uniform:
  assumes "\<And>x. x \<in> set xs \<Longrightarrow> length (f x) = m"
  shows "length (concat (map f xs)) = length xs * m"
  using assms by (induction xs) simp_all

lemma concat_map_nth:
  assumes "\<And>x. x \<in> set xs \<Longrightarrow> length (f x) = m" and "i < length xs" and "j < m"
  shows "concat (map f xs) ! (i * m + j) = f (xs ! i) ! j"
  using assms
proof (induction xs arbitrary: i)
  case Nil
  then show ?case by simp
next
  case (Cons x xs)
  show ?case
  proof (cases i)
    case 0
    with Cons.prems show ?thesis by (simp add: nth_append)
  next
    case (Suc i')
    have len: "length (f x) = m" using Cons.prems(1) by simp
    have "concat (map f xs) ! (i' * m + j) = f (xs ! i') ! j"
      using Cons.prems Suc by (intro Cons.IH) simp_all
    then show ?thesis
      using Suc len by (simp add: nth_append)
  qed
qed

lemma offset_less:
  fixes i j h w :: nat
  assumes "i < h" and "j < w"
  shows "i * w + j < h * w"
proof -
  have "i * w + j < i * w + w" using assms(2) by simp
  also have "\<dots> = Suc i * w" by simp
  also have "\<dots> \<le> h * w" using assms(1) by (intro mult_le_mono1) simp
  finally show ?thesis .
qed

lemma rearrange_b_hw_d_nth:
  assumes "shape t = [b, h * w, d]" and "bi < b" and "c < d" and "i < h" and "j < w"
  shows "\<exists>z. rearrange_b_hw_d t h w = Inr z \<and> shape z = [b, d, h, w] \<and>
             data z ! (((bi * d + c) * h + i) * w + j) = data t ! ((bi * (h * w) + (i * w + j)) * d + c)"
proof -
  define row where "row = (\<lambda>bi c i. map (\<lambda>j. data t ! ((bi * (h * w) + (i * w + j)) * d + c)) [0..<w])"
  define plane where "plane = (\<lambda>bi c. concat (map (row bi c) [0..<h]))"
  define img where "img = (\<lambda>bi. concat (map (plane bi) [0..<d]))"
  have z: "rearrange_b_hw_d t h w = Inr \<lparr>shape = [b, d, h, w], data = concat (map img [0..<b])\<rparr>"
    using assms(1) by (simp add: rearrange_b_hw_d_def img_def plane_def row_def)
  have lrow: "length (row bi c i) = w" for bi c i by (simp add: row_def)
  have lplane: "length (plane bi c) = h * w" for bi c
    unfolding plane_def by (subst length_concat_map_uniform [where m = w]) (simp_all add: lrow)
  have limg: "length (img bi) = d * (h * w)" for bi
    unfolding img_def by (subst length_concat_map_uniform [where m = "h * w"]) (simp_all add: lplane)
  have ij: "i * w + j < h * w" using assms(4,5) by (rule offset_less)
  have cij: "c * (h * w) + (i * w + j) < d * (h * w)" using assms(3) ij by (rule offset_less)
  have idx: "((bi * d + c) * h + i) * w + j = bi * (d * (h * w)) + (c * (h * w) + (i * w + j))"
    by (simp add: algebra_simps)
  have "concat (map img [0..<b]) ! (bi * (d * (h * w)) + (c * (h * w) + (i * w + j)))
          = img ([0..<b] ! bi) ! (c * (h * w) + (i * w + j))"
    using assms(2) cij by (intro concat_map_nth) (simp_all add: limg)
  also have "\<dots> = img bi ! (c * (h * w) + (i * w + j))" using assms(2) by simp
  also have "\<dots> = plane bi ([0..<d] ! c) ! (i * w + j)"
    unfolding img_def using assms(3) ij by (intro concat_map_nth) (simp_all add: lplane)
  also have "\<dots> = plane bi c ! (i * w + j)" using assms(3) by simp
  also have "\<dots> = row bi c ([0..<h] ! i) ! j"
    unfolding plane_def using assms(4,5) by (intro concat_map_nth) (simp_all add: lrow)
  also have "\<dots> = row bi c i ! j" using assms(4) by simp
  also have "\<dots> = data t ! ((bi * (h * w) + (i * w + j)) * d + c)"
    using assms(5) by (simp add: row_def)
  finally have nth: "concat (map img [0..<b]) ! (bi * (d * (h * w)) + (c * (h * w) + (i * w + j)))
                      = data t ! ((bi * (h * w) + (i * w + j)) * d + c)" .
  show ?thesis
    unfolding idx using z nth by simp
qed

lemma embedding_forward_nth:
  assumes "shape weight = [num, d]" and "length (data weight) = num * d"
    and "list_all (\<lambda>i. 0 \<le> i \<and> i < int num) (data idx)"
    and "p < length (data idx)" and "c < d"
  shows "\<exists>e. embedding_forward weight (LongTensor idx) = Inr e \<and> shape e = shape idx @ [d] \<and>
             data e ! (p * d + c) = data weight ! (nat (data idx ! p) * d + c)"
proof -
  define row where "row = (\<lambda>i :: int. take d (drop (nat i * d) (data weight)))"
  have e: "embedding_forward weight (LongTensor idx) =
             Inr \<lparr>shape = shape idx @ [d], data = concat (map row (data idx))\<rparr>"
    using assms(1,3) by (simp add: embedding_forward_def row_def)
  have inrange: "0 \<le> i \<and> i < int num" if "i \<in> set (data idx)" for i
    using assms(3) that by (simp add: list_all_iff)
  have fits: "nat i * d + d \<le> num * d" if "i \<in> set (data idx)" for i
  proof -
    have "Suc (nat i) \<le> num" using inrange [OF that] by linarith
    then have "Suc (nat i) * d \<le> num * d" by (rule mult_le_mono1)
    then show ?thesis by simp
  qed
  have lrow: "length (row i) = d" if "i \<in> set (data idx)" for i
    using fits [OF that] by (simp add: row_def assms(2))
  have "concat (map row (data idx)) ! (p * d + c) = row (data idx ! p) ! c"
    using assms(4,5) by (intro concat_map_nth) (simp_all add: lrow)
  also have "\<dots> = data weight ! (nat (data idx ! p) * d + c)"
  proof -
    have "nat (data idx ! p) * d + d \<le> length (data weight)"
      using fits [of "data idx ! p"] assms(4) by (simp add: assms(2))
    then have "nat (data idx ! p) * d \<le> length (data weight)" by simp
    then show ?thesis
      using assms(5) by (simp add: row_def)
  qed
  finally show ?thesis using e by simp
qed


lemma embedding_forward_shape:
  assumes "embedding_forward weight (LongTensor idx) = Inr e"
  shows "\<exists>d. shape e = shape idx @ [d]"
  using assms
  by (auto simp: embedding_forward_def split: list.splits if_splits)

lemma rearrange_b_hw_d_Inr:
  assumes "shape t = [b, h * w, d]"
  shows "\<exists>z. rearrange_b_hw_d t h w = Inr z \<and> shape z = [b, d, h, w]"
  using assms by (simp add: rearrange_b_hw_d_def)

lemma feed_seq_grid_not_square:
  assumes "shape img_seq = [b, n]" and "\<nexists>k. k * k = n"
  shows "(\<exists>e. feed_seq_grid self (LongTensor img_seq) = Inl e) \<and>
         (\<forall>emb. embedding_forward (embedding (quantize self)) (LongTensor img_seq) = Inr emb \<longrightarrow>
                feed_seq_grid self (LongTensor img_seq) = Inl EinopsError)"
proof -
  have ne: "n \<noteq> int_sqrt n * int_sqrt n" using assms(2) by metis
  have r: "feed_seq_grid self (LongTensor img_seq) = Inl EinopsError"
    if emb: "embedding_forward (embedding (quantize self)) (LongTensor img_seq) = Inr emb" for emb
  proof -
    obtain d where "shape emb = [b, n, d]"
      using embedding_forward_shape [OF emb] assms(1) by auto
    then show ?thesis
      using ne by (simp add: feed_seq_grid_def emb rearrange_b_hw_d_def Let_def)
  qed
  show ?thesis
  proof (cases "embedding_forward (embedding (quantize self)) (LongTensor img_seq)")
    case (Inl e)
    then show ?thesis by (simp add: feed_seq_grid_def)
  next
    case (Inr emb)
    then show ?thesis using r by simp
  qed
qed

lemma feed_seq_grid_square:
  assumes "shape img_seq = [b, k * k]" and "shape (embedding (quantize self)) = [num, d]"
    and "list_all (\<lambda>i. 0 \<le> i \<and> i < int num) (data img_seq)"
  shows "\<exists>z. feed_seq_grid self (LongTensor img_seq) = Inr z \<and> shape z = [b, d, k, k] \<and>
          (length (data img_seq) = b * (k * k) \<and> length (data (embedding (quantize self))) = num * d \<longrightarrow>
             (\<forall>bi<b. \<forall>c<d. \<forall>i<k. \<forall>j<k.
                data z ! (((bi * d + c) * k + i) * k + j) =
                data (embedding (quantize self)) ! (nat (data img_seq ! (bi * (k * k) + (i * k + j))) * d + c)))"
proof -
  let ?W = "embedding (quantize self)"
  define emb where "emb = \<lparr>shape = [b, k * k, d],
     data = concat (map (\<lambda>i. take d (drop (nat i * d) (data ?W))) (data img_seq))\<rparr>"
  have e: "embedding_forward ?W (LongTensor img_seq) = Inr emb"
    using assms by (simp add: embedding_forward_def emb_def)
  have semb: "shape emb = [b, k * k, d]" by (simp add: emb_def)
  have g: "feed_seq_grid self (LongTensor img_seq) = rearrange_b_hw_d emb k k"
    by (simp add: feed_seq_grid_def e semb int_sqrt_square Let_def)
  obtain z where z: "rearrange_b_hw_d emb k k = Inr z" "shape z = [b, d, k, k]"
    using rearrange_b_hw_d_Inr [OF semb] by blast
  have el: "data z ! (((bi * d + c) * k + i) * k + j) =
            data ?W ! (nat (data img_seq ! (bi * (k * k) + (i * k + j))) * d + c)"
    if len: "length (data img_seq) = b * (k * k)" "length (data ?W) = num * d"
      and b: "bi < b" "c < d" "i < k" "j < k" for bi c i j
  proof -
    obtain z' where z': "rearrange_b_hw_d emb k k = Inr z'"
      "data z' ! (((bi * d + c) * k + i) * k + j) = data emb ! ((bi * (k * k) + (i * k + j)) * d + c)"
      using rearrange_b_hw_d_nth [OF semb b] by blast
    have zz: "z' = z" using z(1) z'(1) by simp
    have "i * k + j < k * k" using b(3,4) by (rule offset_less)
    with b(1) have p: "bi * (k * k) + (i * k + j) < length (data img_seq)"
      unfolding len(1) by (rule offset_less)
    obtain e' where e': "embedding_forward ?W (LongTensor img_seq) = Inr e'"
      "data e' ! ((bi * (k * k) + (i * k + j)) * d + c) =
       data ?W ! (nat (data img_seq ! (bi * (k * k) + (i * k + j))) * d + c)"
      using embedding_forward_nth [OF assms(2) len(2) assms(3) p b(2)] by blast
    have "e' = emb" using e e'(1) by simp
    then show ?thesis using z'(2) e'(2) zz by simp
  qed
  show ?thesis
    using g z el by auto
qed

lemma three_not_square: "\<nexists>k::nat. k * k = 3"
proof
  assume "\<exists>k::nat. k * k = 3"
  then obtain k :: nat where k: "k * k = 3" by blast
  show False
  proof (cases "k \<le> 1")
    case True
    then have "k * k \<le> 1 * 1" by (intro mult_le_mono) simp_all
    with k show False by simp
  next
    case False
    then have "2 * 2 \<le> k * k" by (intro mult_le_mono) simp_all
    with k show False by simp
  qed
qed

text \<open>
  Claim C6. \<^verbatim>\<open>VQGAN.decode\<close> with \<^verbatim>\<open>feed_seq=True\<close> on a token tensor of shape
  \<open>(b, n)\<close>: if \<open>n\<close> is not a perfect square the call raises (the einops error, when the
  tokens are valid codebook indices); if \<open>n = k * k\<close> and the tokens are valid indices, the
  grid handed to the inverse projection and the decoder has shape \<open>(b, d, k, k)\<close> and its
  element \<open>(bi, c, i, j)\<close> is component \<open>c\<close> of the codebook row of token \<open>i * k + j\<close> of
  image \<open>bi\<close>.
\<close>

theorem decode_feed_seq_square_grid:
  assumes "shape img_seq = [b, n]"
  shows "((\<nexists>k. k * k = n) \<longrightarrow> (\<exists>e. decode self (LongTensor img_seq) True = Inl e))
       \<and> ((\<nexists>k. k * k = n) \<and> shape (embedding (quantize self)) = [num, d] \<and>
            list_all (\<lambda>i. 0 \<le> i \<and> i < int num) (data img_seq) \<longrightarrow>
              decode self (LongTensor img_seq) True = Inl EinopsError)
       \<and> (n = k * k \<and> shape (embedding (quantize self)) = [num, d] \<and>
            list_all (\<lambda>i. 0 \<le> i \<and> i < int num) (data img_seq) \<longrightarrow>
              (\<exists>z. feed_seq_grid self (LongTensor img_seq) = Inr z \<and> shape z = [b, d, k, k] \<and>
                   decode self (LongTensor img_seq) True =
                     bind_result (post_quant_conv self (FloatTensor z)) (decoder self) \<and>
                   (length (data img_seq) = b * n \<and>
                    length (data (embedding (quantize self))) = num * d \<longrightarrow>
                      (\<forall>bi<b. \<forall>c<d. \<forall>i<k. \<forall>j<k.
                         data z ! (((bi * d + c) * k + i) * k + j) =
                         data (embedding (quantize self)) !
                           (nat (data img_seq ! (bi * n + (i * k + j))) * d + c)))))"
proof (intro conjI impI)
  assume "\<nexists>k. k * k = n"
  from feed_seq_grid_not_square [OF assms this, of self]
  obtain e where "feed_seq_grid self (LongTensor img_seq) = Inl e" by blast
  then show "\<exists>e. decode self (LongTensor img_seq) True = Inl e"
    by (simp add: decode_def)
next
  assume h: "(\<nexists>k. k * k = n) \<and> shape (embedding (quantize self)) = [num, d] \<and>
            list_all (\<lambda>i. 0 \<le> i \<and> i < int num) (data img_seq)"
  then have "\<exists>emb. embedding_forward (embedding (quantize self)) (LongTensor img_seq) = Inr emb"
    by (simp add: embedding_forward_def)
  with feed_seq_grid_not_square [OF assms, of self] h
  show "decode self (LongTensor img_seq) True = Inl EinopsError"
    by (auto simp: decode_def)
next
  assume h: "n = k * k \<and> shape (embedding (quantize self)) = [num, d] \<and>
            list_all (\<lambda>i. 0 \<le> i \<and> i < int num) (data img_seq)"
  then have s: "shape img_seq = [b, k * k]" using assms by simp
  from feed_seq_grid_square [OF s, of self num d] h
  show "\<exists>z. feed_seq_grid self (LongTensor img_seq) = Inr z \<and> shape z = [b, d, k, k] \<and>
                   decode self (LongTensor img_seq) True =
                     bind_result (post_quant_conv self (FloatTensor z)) (decoder self) \<and>
                   (length (data img_seq) = b * n \<and>
                    length (data (embedding (quantize self))) = num * d \<longrightarrow>
                      (\<forall>bi<b. \<forall>c<d. \<forall>i<k. \<forall>j<k.
                         data z ! (((bi * d + c) * k + i) * k + j) =
                         data (embedding (quantize self)) !
                           (nat (data img_seq ! (bi * n + (i * k + j))) * d + c)))"
    by (auto simp: decode_def)
qed

theorem decode_feed_seq_square_grid_witness:
  "(\<exists>z. feed_seq_grid demo_vqgan (LongTensor demo_tokens) = Inr z \<and> shape z = [1, 1, 2, 2] \<and>
        decode demo_vqgan (LongTensor demo_tokens) True = Inr z \<and>
        data z ! 1 = 7)
   \<and> decode demo_vqgan (LongTensor demo_short_tokens) True = Inl EinopsError"
proof -
  have w: "shape (embedding (quantize demo_vqgan)) = [2, 1]"
          "length (data (embedding (quantize demo_vqgan))) = 2 * 1"
          "data (embedding (quantize demo_vqgan)) = [5, 7]"
    by (simp_all add: demo_vqgan_def)
  have nets: "post_quant_conv demo_vqgan (FloatTensor z) = Inr z" "decoder demo_vqgan = Inr" for z
    by (simp_all add: demo_vqgan_def)
  have t: "shape demo_tokens = [1, 4]" "length (data demo_tokens) = 1 * 4"
          "list_all (\<lambda>i. 0 \<le> i \<and> i < int 2) (data demo_tokens)" "(4::nat) = 2 * 2"
          "data demo_tokens = [0, 1, 1, 0]"
    by (simp_all add: demo_tokens_def)
  have u: "shape demo_short_tokens = [1, 3]"
          "list_all (\<lambda>i. 0 \<le> i \<and> i < int 2) (data demo_short_tokens)"
    by (simp_all add: demo_short_tokens_def)
  from decode_feed_seq_square_grid [OF t(1), of demo_vqgan 2 1 2] w(1,2) t(2,3,4)
  obtain z where z: "feed_seq_grid demo_vqgan (LongTensor demo_tokens) = Inr z"
    "shape z = [1, 1, 2, 2]"
    "decode demo_vqgan (LongTensor demo_tokens) True =
       bind_result (post_quant_conv demo_vqgan (FloatTensor z)) (decoder demo_vqgan)"
    "\<forall>bi<1. \<forall>c<1. \<forall>i<2. \<forall>j<2.
        data z ! (((bi * 1 + c) * 2 + i) * 2 + j) =
        data (embedding (quantize demo_vqgan)) ! (nat (data demo_tokens ! (bi * 4 + (i * 2 + j))) * 1 + c)"
    by blast
  have "data z ! (((0 * 1 + 0) * 2 + 0) * 2 + 1) =
        data (embedding (quantize demo_vqgan)) ! (nat (data demo_tokens ! (0 * 4 + (0 * 2 + 1))) * 1 + 0)"
    by (rule z(4) [rule_format]) simp_all
  then have el: "data z ! 1 = 7" by (simp add: w(3) t(5))
  from decode_feed_seq_square_grid [OF u(1), of demo_vqgan 2 1] three_not_square w(1) u(2)
  have "decode demo_vqgan (LongTensor demo_short_tokens) True = Inl EinopsError"
    by blast
  with z el show ?thesis by (simp add: nets)
qed


lemma init_parameters_total:
  "init_parameters (\<lambda>p. Inr (f p)) (\<lambda>p. Inr (g p)) nps =
     Inr (map (\<lambda>(name, p). (name, if name = ''weight'' then f p
                                 else if name = ''bias'' then g p else p)) nps)"
  by (induction nps) auto

lemma init_parameters_Inr:
  assumes "init_parameters orthogonal kaiming nps = Inr nps'"
  shows "map fst nps' = map fst nps \<and>
         (\<forall>i < length nps.
            (fst (nps ! i) = ''weight'' \<longrightarrow> orthogonal (snd (nps ! i)) = Inr (snd (nps' ! i))) \<and>
            (fst (nps ! i) = ''bias'' \<longrightarrow> kaiming (snd (nps ! i)) = Inr (snd (nps' ! i))) \<and>
            (fst (nps ! i) \<noteq> ''weight'' \<and> fst (nps ! i) \<noteq> ''bias'' \<longrightarrow>
               snd (nps' ! i) = snd (nps ! i)))"
  using assms
proof (induction nps arbitrary: nps')
  case Nil
  then show ?case by simp
next
  case (Cons np nps)
  obtain name p where np: "np = (name, p)" by (cases np)
  from Cons.prems obtain p' rest where
    hd: "(if List.member [''weight''] name then orthogonal p
          else if List.member [''bias''] name then kaiming p else Inr p) = Inr p'" and
    tl: "init_parameters orthogonal kaiming nps = Inr rest" and
    res: "nps' = (name, p') # rest"
    by (auto simp: np bind_result_eq_Inr)
  note IH = Cons.IH [OF tl]
  show ?case
  proof (intro conjI allI impI)
    show "map fst nps' = map fst (np # nps)"
      using IH by (simp add: res np)
  next
    fix i assume "i < length (np # nps)" "fst ((np # nps) ! i) = ''weight''"
    then show "orthogonal (snd ((np # nps) ! i)) = Inr (snd (nps' ! i))"
      using IH hd by (cases i) (auto simp: res np)
  next
    fix i assume "i < length (np # nps)" "fst ((np # nps) ! i) = ''bias''"
    then show "kaiming (snd ((np # nps) ! i)) = Inr (snd (nps' ! i))"
      using IH hd by (cases i) (auto simp: res np)
  next
    fix i assume "i < length (np # nps)"
      "fst ((np # nps) ! i) \<noteq> ''weight'' \<and> fst ((np # nps) ! i) \<noteq> ''bias''"
    then show "snd (nps' ! i) = snd ((np # nps) ! i)"
      using IH hd by (cases i) (auto simp: res np)
  qed
qed

text \<open>
  Claim C7. The initialisation loop of \<^verbatim>\<open>VQGAN.__init__\<close> keeps the names and the order
  of the parameters; a parameter named exactly \<open>weight\<close> is replaced by its orthogonal
  initialisation, one named exactly \<open>bias\<close> by its Kaiming initialisation, and every other
  parameter is left as it was. With initialisers that do not raise, the loop returns.
\<close>

theorem init_parameters_by_name:
  "(init_parameters orthogonal kaiming nps = Inr nps' \<longrightarrow>
      map fst nps' = map fst nps \<and>
      (\<forall>i < length nps.
         (fst (nps ! i) = ''weight'' \<longrightarrow> orthogonal (snd (nps ! i)) = Inr (snd (nps' ! i))) \<and>
         (fst (nps ! i) = ''bias'' \<longrightarrow> kaiming (snd (nps ! i)) = Inr (snd (nps' ! i))) \<and>
         (fst (nps ! i) \<noteq> ''weight'' \<and> fst (nps ! i) \<noteq> ''bias'' \<longrightarrow>
            snd (nps' ! i) = snd (nps ! i))))
   \<and> init_parameters (\<lambda>p. Inr (f p)) (\<lambda>p. Inr (g p)) nps =
       Inr (map (\<lambda>(name, p). (name, if name = ''weight'' then f p
                                   else if name = ''bias'' then g p else p)) nps)"
  using init_parameters_Inr init_parameters_total by blast

theorem init_parameters_by_name_witness:
  "init_parameters (\<lambda>p. Inr (p + 1)) (\<lambda>p. Inr (p * 2)) demo_parameters =
     Inr [(''weight'', 2), (''encoder.conv_in.weight'', 7), (''bias'', 10)]
   \<and> map fst [(''weight'', 2::nat), (''encoder.conv_in.weight'', 7), (''bias'', 10)] =
       map fst demo_parameters
   \<and> (Inr (snd (demo_parameters ! 0) + 1) :: error + nat) = Inr 2
   \<and> (Inr (snd (demo_parameters ! 2) * 2) :: error + nat) = Inr 10
   \<and> snd (demo_parameters ! 1) = 7"
proof -
  have r: "init_parameters (\<lambda>p. Inr (p + 1)) (\<lambda>p. Inr (p * 2)) demo_parameters =
     Inr [(''weight'', 2), (''encoder.conv_in.weight'', 7), (''bias'', 10)]"
    by (simp add: demo_parameters_def)
  have l: "length demo_parameters = 3" by (simp add: demo_parameters_def)
  from init_parameters_by_name [of "\<lambda>p. Inr (p + 1)" "\<lambda>p. Inr (p * 2)" demo_parameters
      "[(''weight'', 2), (''encoder.conv_in.weight'', 7), (''bias'', 10)]" "\<lambda>p. p + 1" "\<lambda>p. p * 2"] r
  show ?thesis
    by (simp add: demo_parameters_def)
qed


section \<open>Properties of vqvae.py\<close>

text \<open>
  Claim C8. \<^verbatim>\<open>decode_code\<close> called on a \<^verbatim>\<open>GumbelVQVAE\<close> raises NotImplementedError,
  whatever the instance and the argument.
\<close>

theorem GumbelVQVAE_decode_code_not_implemented:
  "decode_code GumbelVQVAE env self code_b = Inl NotImplementedError"
  by (simp add: GumbelVQVAE_decode_code_def)

lemma bind_result_InrE:
  assumes "bind_result m f = Inr y"
  obtains x where "m = Inr x" and "f x = Inr y"
  using assms by (cases m) simp_all

lemma VQVAE_init_attributes:
  assumes "VQVAE_init env self args bs lr ik mon remap sis nrm = Inr self'"
  shows "\<exists>enc dec sl q qc pqc.
           attributes self' =
             (if mon \<noteq> PyNone then [(''monitor'', mon)] else []) @
             [(''post_quant_conv'', pqc), (''quant_conv'', qc), (''quantize'', q),
              (''smooth_l1_loss'', sl), (''normalization'', nrm), (''decoder'', dec),
              (''encoder'', enc), (''args'', args),
              (''hparams'', hparams_after self
                 [(''args'', args), (''batch_size'', bs), (''learning_rate'', lr),
                  (''ignore_keys'', ik), (''monitor'', mon), (''remap'', remap),
                  (''same_index_shape'', sis), (''normalization'', nrm)])] @
             attributes self"
  using assms
  apply (unfold VQVAE_init_def Let_def)
  apply (elim bind_result_InrE)
  apply (auto simp: setattr_self_def save_hyperparameters_def simp del: getattrs.simps split: if_splits)
  done

lemma getattrs_head:
  assumes "getattrs v (n # ns) = Inr xs"
  shows "\<exists>x. getattr_val v n = Inr x"
  using assms by (auto simp: bind_result_eq_Inr)

lemma VQVAE_init_n_embed:
  assumes "VQVAE_init env self args bs lr ik mon remap sis nrm = Inr self'"
  shows "\<exists>v. getattr_val args ''n_embed'' = Inr v"
  using assms
  apply (unfold VQVAE_init_def Let_def)
  apply (elim bind_result_InrE)
  apply (blast dest: getattrs_head)
  done

lemma VQVAE_init_any_instance:
  assumes "VQVAE_init env s1 args bs lr ik mon remap sis nrm = Inr r1"
  shows "\<exists>r2. VQVAE_init env s2 args bs' lr' ik' mon' remap sis nrm' = Inr r2"
  using assms
  apply (unfold VQVAE_init_def Let_def)
  apply (elim bind_result_InrE)
  apply (simp del: getattrs.simps)
  done

lemma VQVAE_init_no_loss:
  assumes "VQVAE_init env self args bs lr ik mon remap sis nrm = Inr self'"
    and "map_of (attributes self) ''loss'' = None"
  shows "getattr_self env self' ''loss'' = Inl (AttributeError ''loss'')"
proof -
  obtain enc dec sl q qc pqc h where
    "attributes self' =
       (if mon \<noteq> PyNone then [(''monitor'', mon)] else []) @
       [(''post_quant_conv'', pqc), (''quant_conv'', qc), (''quantize'', q),
        (''smooth_l1_loss'', sl), (''normalization'', nrm), (''decoder'', dec),
        (''encoder'', enc), (''args'', args), (''hparams'', h)] @ attributes self"
    using VQVAE_init_attributes [OF assms(1)] by blast
  then have "map_of (attributes self') ''loss'' = None"
    using assms(2) by simp
  then show ?thesis
    by (simp add: getattr_self_def class_methods_def)
qed

lemma VQVAE_init_new_lookup:
  assumes "VQVAE_init env new_instance args bs lr ik mon remap sis nrm = Inr self"
  shows "getattr_self env self ''hparams'' =
           Inr (PyObject ''AttributeDict''
                 [(''args'', args), (''batch_size'', bs), (''learning_rate'', lr),
                  (''ignore_keys'', ik), (''monitor'', mon), (''remap'', remap),
                  (''same_index_shape'', sis), (''normalization'', nrm)])"
    and "getattr_self env self ''parameters'' = Inr (PyMethod ''parameters'')"
    and "getattr_self env self ''model'' = Inl (AttributeError ''model'')"
proof -
  obtain enc dec sl q qc pqc where a:
    "attributes self =
       (if mon \<noteq> PyNone then [(''monitor'', mon)] else []) @
       [(''post_quant_conv'', pqc), (''quant_conv'', qc), (''quantize'', q),
        (''smooth_l1_loss'', sl), (''normalization'', nrm), (''decoder'', dec),
        (''encoder'', enc), (''args'', args),
        (''hparams'', PyObject ''AttributeDict''
                 [(''args'', args), (''batch_size'', bs), (''learning_rate'', lr),
                  (''ignore_keys'', ik), (''monitor'', mon), (''remap'', remap),
                  (''same_index_shape'', sis), (''normalization'', nrm)])]"
    using VQVAE_init_attributes [OF assms]
    by (auto simp: hparams_after_def new_instance_def)
  show "getattr_self env self ''hparams'' =
           Inr (PyObject ''AttributeDict''
                 [(''args'', args), (''batch_size'', bs), (''learning_rate'', lr),
                  (''ignore_keys'', ik), (''monitor'', mon), (''remap'', remap),
                  (''same_index_shape'', sis), (''normalization'', nrm)])"
    by (simp add: getattr_self_def a)
  show "getattr_self env self ''parameters'' = Inr (PyMethod ''parameters'')"
    by (simp add: getattr_self_def a class_methods_def)
  show "getattr_self env self ''model'' = Inl (AttributeError ''model'')"
    by (simp add: getattr_self_def a class_methods_def)
qed

lemma demo_VQVAE_new: "\<exists>s. VQVAE_new demo_env demo_args (PyInt 4) (PyFloat (1 / 1000)) = Inr s"
  by (simp add: VQVAE_new_def VQVAE_init_def demo_env_def demo_args_def Let_def)

lemma Adam_bound_method: "\<exists>e. Adam (PyMethod m) lr betas = Inl e"
  by (cases "as_number lr") (simp_all add: Adam_def)

lemma Adam_bound_method_TypeError:
  assumes "0 \<le> r"
  shows "Adam (PyMethod m) (PyFloat r) (1 / 2, 9 / 10) = Inl TypeError"
  using assms by (simp add: Adam_def)

text \<open>
  Claim C9. Constructing a \<^verbatim>\<open>GumbelVQVAE\<close> never yields an instance, whatever the
  arguments: the constructor always raises. Whenever the parent constructor
  \<^verbatim>\<open>VQVAE.__init__\<close> succeeds on the arguments passed to it, the exception is the
  AttributeError for \<^verbatim>\<open>self.loss\<close>, an attribute that the parent never assigns.
\<close>

theorem GumbelVQVAE_construction_fails:
  "(\<exists>e. GumbelVQVAE_init env new_instance args batch_size learning_rate ignore_keys monitor remap
          = Inl e) \<and>
   (VQVAE_init env new_instance args batch_size learning_rate ignore_keys monitor PyNone
      (PyBool False) default_normalization = Inr s \<longrightarrow>
    GumbelVQVAE_init env new_instance args batch_size learning_rate ignore_keys monitor remap
      = Inl (AttributeError ''loss''))"
proof -
  define pre where "pre = setattr_self (save_hyperparameters new_instance
                [(''args'', args), (''batch_size'', batch_size), (''learning_rate'', learning_rate),
                 (''ignore_keys'', ignore_keys), (''monitor'', monitor), (''remap'', remap)]) ''args'' args"
  define parent where "parent = VQVAE_init env pre args batch_size learning_rate ignore_keys monitor
                   PyNone (PyBool False) default_normalization"
  let ?new = "GumbelVQVAE_init env new_instance args batch_size learning_rate ignore_keys monitor remap"
  have new: "?new =
      bind_result parent (\<lambda>self.
      bind_result (getattr_val args ''n_embed'') (\<lambda>v.
      bind_result (getattr_self env self ''loss'') (\<lambda>loss_module.
      bind_result (setattr_val loss_module ''n_classes'' v) (\<lambda>loss_module.
      let self = setattr_self self ''loss'' loss_module in
      bind_result (getattr_val args ''n_embed'') (\<lambda>v.
      let self = setattr_self self ''vocab_size'' v in
      bind_result (getattrs args [''z_channels'', ''embed_dim'', ''n_embed'', ''kl_loss_weight'',
                                  ''starting_temp'']) (\<lambda>vs.
      bind_result (construct env ''GumbelQuantize'' (vs @ [remap])) (\<lambda>m.
      Inr (setattr_self self ''quantize'' m))))))))"
    unfolding GumbelVQVAE_init_def parent_def pre_def Let_def ..
  have pre_loss: "map_of (attributes pre) ''loss'' = None"
    by (simp add: pre_def setattr_self_def save_hyperparameters_def new_instance_def)
  have after: "?new = Inl (AttributeError ''loss'')"
    if p: "parent = Inr self'" for self'
  proof -
    obtain v where v: "getattr_val args ''n_embed'' = Inr v"
      using VQVAE_init_n_embed [OF p [unfolded parent_def]] by blast
    have "getattr_self env self' ''loss'' = Inl (AttributeError ''loss'')"
      using VQVAE_init_no_loss [OF p [unfolded parent_def] pre_loss] .
    then show ?thesis
      by (simp add: new p v)
  qed
  have fails: "\<exists>e. ?new = Inl e"
  proof (cases parent)
    case (Inl e)
    then show ?thesis by (simp add: new)
  next
    case (Inr self')
    then show ?thesis using after by blast
  qed
  have "?new = Inl (AttributeError ''loss'')"
    if plain: "VQVAE_init env new_instance args batch_size learning_rate ignore_keys monitor PyNone
      (PyBool False) default_normalization = Inr s"
  proof -
    obtain self' where "parent = Inr self'"
      using VQVAE_init_any_instance [OF plain] unfolding parent_def by blast
    then show ?thesis by (rule after)
  qed
  with fails show ?thesis by blast
qed

theorem GumbelVQVAE_construction_fails_witness:
  "(\<exists>s. VQVAE_new demo_env demo_args (PyInt 4) (PyFloat (1 / 1000)) = Inr s) \<and>
   GumbelVQVAE_new demo_env demo_args (PyInt 4) (PyFloat (1 / 1000)) = Inl (AttributeError ''loss'')"
proof -
  obtain s where s: "VQVAE_new demo_env demo_args (PyInt 4) (PyFloat (1 / 1000)) = Inr s"
    using demo_VQVAE_new by blast
  show ?thesis
    using GumbelVQVAE_construction_fails
      [of demo_env demo_args "PyInt 4" "PyFloat (1 / 1000)" "PyList []" PyNone PyNone s] s
    unfolding VQVAE_new_def GumbelVQVAE_new_def
    by blast
qed

text \<open>
  Claim C10. \<^verbatim>\<open>configure_optimizers\<close> raises on every constructed \<^verbatim>\<open>VQVAE\<close>, whatever
  the constructor's arguments: \<^verbatim>\<open>self.parameters\<close> is the bound method, which Adam cannot
  iterate. With a non-negative float learning rate the exception is the TypeError of that
  iteration.
\<close>

theorem VQVAE_configure_optimizers_raises:
  assumes "VQVAE_init env new_instance args batch_size learning_rate ignore_keys monitor remap
             same_index_shape normalization = Inr self"
  shows "(\<exists>e. VQVAE_configure_optimizers env self = Inl e) \<and>
         (\<forall>r. learning_rate = PyFloat r \<and> 0 \<le> r \<longrightarrow>
              VQVAE_configure_optimizers env self = Inl TypeError)"
proof -
  note look = VQVAE_init_new_lookup [OF assms]
  have eq: "VQVAE_configure_optimizers env self =
      bind_result (Adam (PyMethod ''parameters'') learning_rate (0.5, 0.9)) (\<lambda>opt.
      bind_result (getattr_self env self ''args'') (\<lambda>args.
      bind_result (getattr_val args ''lr_decay_rate'') (\<lambda>gamma.
      bind_result (construct env ''ExponentialLR'' [opt, gamma]) (\<lambda>sched.
      Inr (PyTuple [opt, sched])))))"
    by (simp add: VQVAE_configure_optimizers_def look(1,2))
  obtain e where e: "Adam (PyMethod ''parameters'') learning_rate (0.5, 0.9) = Inl e"
    using Adam_bound_method by blast
  have "\<exists>e. VQVAE_configure_optimizers env self = Inl e"
    unfolding eq e by simp
  moreover have "VQVAE_configure_optimizers env self = Inl TypeError"
    if "learning_rate = PyFloat r" and "0 \<le> r" for r
    using that by (simp add: eq Adam_bound_method_TypeError)
  ultimately show ?thesis by blast
qed

theorem VQVAE_configure_optimizers_raises_witness:
  "(\<exists>s. VQVAE_new demo_env demo_args (PyInt 4) (PyFloat (1 / 1000)) = Inr s \<and>
        VQVAE_configure_optimizers demo_env s = Inl TypeError)"
proof -
  obtain s where s: "VQVAE_new demo_env demo_args (PyInt 4) (PyFloat (1 / 1000)) = Inr s"
    using demo_VQVAE_new by blast
  have "PyFloat (1 / 1000) = PyFloat (1 / 1000) \<and> (0::real) \<le> 1 / 1000 \<longrightarrow>
          VQVAE_configure_optimizers demo_env s = Inl TypeError"
    using VQVAE_configure_optimizers_raises [OF s [unfolded VQVAE_new_def]] by blast
  then have "VQVAE_configure_optimizers demo_env s = Inl TypeError"
    by simp
  with s show ?thesis by blast
qed

lemma VQVAE_get_codebook_indices_no_model:
  assumes "VQVAE_init env new_instance args bs lr ik mon remap sis nrm = Inr self"
    and "shape t = b # rest"
  shows "VQVAE_get_codebook_indices env self (PyTensor t) = Inl (AttributeError ''model'')"
  using assms(2) VQVAE_init_new_lookup(3) [OF assms(1)]
  by (simp add: VQVAE_get_codebook_indices_def Let_def)

text \<open>
  Claim C5, on \<^verbatim>\<open>VQVAE.get_codebook_indices\<close>: the method reads \<^verbatim>\<open>self.model\<close>, which
  no constructor assigns, so on a batch of four images it raises AttributeError instead of
  returning the indices.
\<close>

theorem VQVAE_get_codebook_indices_raises:
  "indices_of_new demo_env demo_args (PyInt 4) (PyFloat (1 / 1000)) demo_images = Inl (AttributeError ''model'')"
proof -
  obtain s where s: "VQVAE_new demo_env demo_args (PyInt 4) (PyFloat (1 / 1000)) = Inr s"
    using demo_VQVAE_new by blast
  have "VQVAE_get_codebook_indices demo_env s demo_images = Inl (AttributeError ''model'')"
    unfolding demo_images_def
    by (rule VQVAE_get_codebook_indices_no_model [OF s [unfolded VQVAE_new_def]]) simp
  then show ?thesis
    unfolding indices_of_new_def s by simp
qed


text \<open>
  Claim C3, on \<^verbatim>\<open>GumbelVQVAE.validation_step\<close>: the forward pass runs before the
  temperature is set to 1.0. With a quantizer at temperature \<open>1 / 2\<close> whose loss term is its
  temperature, the step returns \<open>1 / 2\<close>; a forward pass at temperature 1 returns 1.
\<close>

theorem GumbelVQVAE_validation_forward_before_temperature:
  "returned_value (GumbelVQVAE_validation_step demo_env (demo_gumbel_vqvae (1 / 2))
      (PyTuple [demo_tensor, PyNone]) (PyInt 0)) = Some (PyFloat (1 / 2))
   \<and> returned_value (GumbelVQVAE_validation_step demo_env (demo_gumbel_vqvae 1)
      (PyTuple [demo_tensor, PyNone]) (PyInt 0)) = Some (PyFloat 1)"
  by (simp add: GumbelVQVAE_validation_step_def VQVAE_forward_def VQVAE_encode_def VQVAE_decode_def
      reconstruction_loss_def getattr_self_def setattr_self_def log_call_def py_add_def
      unpack2_def unpack3_def returned_value_def demo_env_def demo_gumbel_vqvae_def
      demo_tensor_def Let_def)


text \<open>
  \<^verbatim>\<open>GumbelVQVAE.training_step\<close> reads \<^verbatim>\<open>self.temperature\<close>, which neither constructor
  assigns.
\<close>

lemma GumbelVQVAE_training_step_no_temperature:
  assumes "map_of (attributes self) ''temperature'' = None" and "unpack2 batch = Inr (x, y)"
  shows "GumbelVQVAE_training_step env self batch batch_idx optimizer_idx =
           Inl (AttributeError ''temperature'')"
  using assms
  by (simp add: GumbelVQVAE_training_step_def getattr_self_def class_methods_def)


end
